theory Spec2Isabelle
  imports Complex_Main "HOL-Library.Log_Nat" "HOL-Library.AList"
begin

section \<open>JavaScript values\<close>

text \<open>
  The planner (\<^verbatim>\<open>src/scripts/bible-planner.js\<close>) and the site script keep their data in
  plain JavaScript values. A number is an IEEE-754 double: every finite double is a
  rational, so \<open>Fin q\<close> carries its exact value (the sign of zero is not kept), and the three
  non-finite doubles are constructors of their own. Strings are character lists. An object
  is the list of its own enumerable properties in enumeration order, an array the list of
  its elements. Functions, symbols and objects with accessors do not occur in the data.
\<close>

datatype number = Fin rat | NaN | Infinity | NegInfinity

datatype jsval =
    JUndefined
  | JNull
  | JBool bool
  | JNum number
  | JStr string
  | JArr "jsval list"
  | JObj "(string \<times> jsval) list"

type_synonym props = "(string \<times> jsval) list"

datatype error = TypeError | SyntaxError

text \<open>Truthiness, as tested by \<^verbatim>\<open>if (x)\<close>, \<^verbatim>\<open>x ? a : b\<close>, \<^verbatim>\<open>!x\<close> and \<^verbatim>\<open>filter(Boolean)\<close>.\<close>

fun truthy :: "jsval \<Rightarrow> bool" where
  "truthy JUndefined = False"
| "truthy JNull = False"
| "truthy (JBool b) = b"
| "truthy (JNum (Fin q)) = (q \<noteq> 0)"
| "truthy (JNum NaN) = False"
| "truthy (JNum _) = True"
| "truthy (JStr s) = (s \<noteq> [])"
| "truthy (JArr _) = True"
| "truthy (JObj _) = True"

subsection \<open>Decimal strings and property keys\<close>

definition digit_char :: "nat \<Rightarrow> char" where
  "digit_char d = ''0123456789'' ! d"

text \<open>The decimal digits of a natural number, as a template literal prints an integer.\<close>

function string_of_nat :: "nat \<Rightarrow> string" where
  "string_of_nat n =
     (if n < 10 then [digit_char n]
      else string_of_nat (n div 10) @ [digit_char (n mod 10)])"
  by pat_completeness auto
termination
  by (relation "measure id") auto

definition is_digit :: "char \<Rightarrow> bool" where
  "is_digit c = (c \<in> set ''0123456789'')"

definition digit_val :: "char \<Rightarrow> nat" where
  "digit_val c = of_char c - 48"

definition nat_of_digits :: "string \<Rightarrow> nat" where
  "nat_of_digits s = foldl (\<lambda>n c. 10 * n + digit_val c) 0 s"

text \<open>
  A property key is an array index when it is the canonical decimal string of an integer
  below \<open>2^32 - 1\<close>. Such keys are enumerated first, in ascending numeric order; all other
  string keys follow in the order in which they were created.
\<close>

definition array_index :: "string \<Rightarrow> nat option" where
  "array_index k =
     (if k \<noteq> [] \<and> list_all is_digit k \<and> (k = ''0'' \<or> hd k \<noteq> CHR ''0'')
         \<and> nat_of_digits k < 2 ^ 32 - 1
      then Some (nat_of_digits k) else None)"

fun insert_index :: "nat \<Rightarrow> string \<Rightarrow> jsval \<Rightarrow> props \<Rightarrow> props" where
  "insert_index i k v [] = [(k, v)]"
| "insert_index i k v ((k', v') # ps) =
     (case array_index k' of
        Some j \<Rightarrow> if j < i then (k', v') # insert_index i k v ps
                  else (k, v) # (k', v') # ps
      | None \<Rightarrow> (k, v) # (k', v') # ps)"

text \<open>
  \<^verbatim>\<open>CreateDataProperty\<close>: define the own property \<open>k\<close> with value \<open>v\<close>. An existing property
  keeps its place; a new one takes the place its key has in the enumeration order.
\<close>

definition obj_define :: "string \<Rightarrow> jsval \<Rightarrow> props \<Rightarrow> props" where
  "obj_define k v ps =
     (if k \<in> set (map fst ps) then AList.update k v ps
      else case array_index k of
             None \<Rightarrow> ps @ [(k, v)]
           | Some i \<Rightarrow> insert_index i k v ps)"

text \<open>
  The own enumerable string-keyed properties of a value: what \<^verbatim>\<open>Object.entries\<close> lists and
  what the spread \<^verbatim>\<open>{...x}\<close> copies. An array and a string expose their elements under the
  index keys; a number, a boolean, \<^verbatim>\<open>null\<close> and \<^verbatim>\<open>undefined\<close> have none.
\<close>

fun index_entries :: "nat \<Rightarrow> jsval list \<Rightarrow> props" where
  "index_entries i [] = []"
| "index_entries i (x # xs) = (string_of_nat i, x) # index_entries (Suc i) xs"

fun own_entries :: "jsval \<Rightarrow> props" where
  "own_entries (JObj ps) = ps"
| "own_entries (JArr xs) = index_entries 0 xs"
| "own_entries (JStr s) = index_entries 0 (map (\<lambda>c. JStr [c]) s)"
| "own_entries _ = []"

text \<open>\<^verbatim>\<open>Object.entries(x)\<close> and \<^verbatim>\<open>Object.values(x)\<close> throw on \<^verbatim>\<open>null\<close> and \<^verbatim>\<open>undefined\<close>.\<close>

definition Object_entries :: "jsval \<Rightarrow> error + props" where
  "Object_entries x =
     (case x of JUndefined \<Rightarrow> Inl TypeError | JNull \<Rightarrow> Inl TypeError
      | _ \<Rightarrow> Inr (own_entries x))"

definition Object_values :: "jsval \<Rightarrow> error + jsval list" where
  "Object_values x =
     (case x of JUndefined \<Rightarrow> Inl TypeError | JNull \<Rightarrow> Inl TypeError
      | _ \<Rightarrow> Inr (map snd (own_entries x)))"

text \<open>
  The object literal \<^verbatim>\<open>{...a, ...b}\<close>: a fresh object that receives the own enumerable
  properties of \<open>a\<close> and then those of \<open>b\<close>, each by \<^verbatim>\<open>CreateDataProperty\<close>, so that a key of
  \<open>b\<close> replaces the value of the same key of \<open>a\<close>.
\<close>

definition copy_props :: "props \<Rightarrow> props \<Rightarrow> props" where
  "copy_props src target = foldl (\<lambda>acc (k, v). obj_define k v acc) target src"

definition spread2 :: "jsval \<Rightarrow> jsval \<Rightarrow> props" where
  "spread2 a b = copy_props (own_entries b) (copy_props (own_entries a) [])"

section \<open>JSON texts and ordinary objects\<close>

text \<open>
  \<^verbatim>\<open>JSON.stringify\<close> and \<^verbatim>\<open>JSON.parse\<close> belong to the language, not to the repository. A JSON
  text is represented by the document it denotes, that is, by the value \<^verbatim>\<open>JSON.parse\<close>
  makes of it, with every object given as its property list; \<open>Malformed\<close> is any string
  that is not JSON text. \<^verbatim>\<open>JSON.stringify\<close> leaves out the properties whose value is
  \<^verbatim>\<open>undefined\<close>, writes \<^verbatim>\<open>null\<close> for such an array element and for a number that is not
  finite, and returns \<^verbatim>\<open>undefined\<close> (here \<open>None\<close>) for the value \<^verbatim>\<open>undefined\<close> itself.
\<close>

datatype json =
    JsonNull
  | JsonBool bool
  | JsonNum rat
  | JsonStr string
  | JsonArr "json list"
  | JsonObj "(string \<times> json) list"

datatype json_text = JsonText json | Malformed

fun of_json :: "json \<Rightarrow> jsval" where
  "of_json JsonNull = JNull"
| "of_json (JsonBool b) = JBool b"
| "of_json (JsonNum q) = JNum (Fin q)"
| "of_json (JsonStr s) = JStr s"
| "of_json (JsonArr xs) = JArr (map of_json xs)"
| "of_json (JsonObj ps) = JObj (map (\<lambda>(k, v). (k, of_json v)) ps)"

fun to_json :: "jsval \<Rightarrow> json option" where
  "to_json JUndefined = None"
| "to_json JNull = Some JsonNull"
| "to_json (JBool b) = Some (JsonBool b)"
| "to_json (JNum (Fin q)) = Some (JsonNum q)"
| "to_json (JNum _) = Some JsonNull"
| "to_json (JStr s) = Some (JsonStr s)"
| "to_json (JArr xs) =
     Some (JsonArr (map (\<lambda>x. case to_json x of None \<Rightarrow> JsonNull | Some j \<Rightarrow> j) xs))"
| "to_json (JObj ps) =
     Some (JsonObj (concat (map (\<lambda>(k, v). case to_json v of None \<Rightarrow> []
                                              | Some j \<Rightarrow> [(k, j)]) ps)))"

definition JSON_stringify :: "jsval \<Rightarrow> json_text option" where
  "JSON_stringify v = map_option JsonText (to_json v)"

definition JSON_parse :: "json_text \<Rightarrow> error + jsval" where
  "JSON_parse t = (case t of JsonText j \<Rightarrow> Inr (of_json j) | Malformed \<Rightarrow> Inl SyntaxError)"

text \<open>The values that JSON can represent: those that \<^verbatim>\<open>JSON.stringify\<close> writes out in full.\<close>

fun json_representable :: "jsval \<Rightarrow> bool" where
  "json_representable JUndefined = False"
| "json_representable (JNum (Fin q)) = True"
| "json_representable (JNum _) = False"
| "json_representable (JArr xs) = list_all json_representable xs"
| "json_representable (JObj ps) = list_all (\<lambda>(k, v). json_representable v) ps"
| "json_representable _ = True"

subsection \<open>Property reads and writes on an ordinary object\<close>

text \<open>
  An object created by \<^verbatim>\<open>{}\<close> inherits from \<^verbatim>\<open>Object.prototype\<close>. A read \<^verbatim>\<open>o[k]\<close> that finds
  no own property goes up the prototype chain, and so can return a built-in; a write
  \<^verbatim>\<open>o[k] = v\<close> creates an own property unless the chain holds a setter for \<open>k\<close>. The only
  setter on the chain is the one of \<^verbatim>\<open>Object.prototype.__proto__\<close>: it replaces the prototype
  of the object when \<open>v\<close> is an object or \<^verbatim>\<open>null\<close> and does nothing for any other value. The
  property tables are those of ECMAScript 2023.
\<close>

datatype proto = ObjectPrototype | NullPrototype | DataPrototype jsval

record ordinary_object =
  own :: props
  proto :: proto

datatype lookup = Value jsval | Builtin string

definition empty_object :: ordinary_object where
  "empty_object = \<lparr>own = [], proto = ObjectPrototype\<rparr>"

definition object_prototype_keys :: "string list" where
  "object_prototype_keys =
     [''constructor'', ''__defineGetter__'', ''__defineSetter__'', ''hasOwnProperty'',
      ''__lookupGetter__'', ''__lookupSetter__'', ''isPrototypeOf'',
      ''propertyIsEnumerable'', ''toString'', ''valueOf'', ''toLocaleString'']"

definition array_prototype_keys :: "string list" where
  "array_prototype_keys =
     [''at'', ''concat'', ''constructor'', ''copyWithin'', ''entries'', ''every'', ''fill'',
      ''filter'', ''find'', ''findIndex'', ''findLast'', ''findLastIndex'', ''flat'',
      ''flatMap'', ''forEach'', ''includes'', ''indexOf'', ''join'', ''keys'',
      ''lastIndexOf'', ''map'', ''pop'', ''push'', ''reduce'', ''reduceRight'', ''reverse'',
      ''shift'', ''slice'', ''some'', ''sort'', ''splice'', ''toLocaleString'', ''toReversed'',
      ''toSorted'', ''toSpliced'', ''toString'', ''unshift'', ''values'', ''with'']"

definition is_object :: "jsval \<Rightarrow> bool" where
  "is_object v = (case v of JObj _ \<Rightarrow> True | JArr _ \<Rightarrow> True | _ \<Rightarrow> False)"

definition is_array :: "jsval \<Rightarrow> bool" where
  "is_array v = (case v of JArr _ \<Rightarrow> True | _ \<Rightarrow> False)"

text \<open>The own property \<open>k\<close> of a data object or array, if it has one.\<close>

definition own_read :: "jsval \<Rightarrow> string \<Rightarrow> jsval option" where
  "own_read d k =
     (case d of
        JObj ps \<Rightarrow> map_of ps k
      | JArr xs \<Rightarrow>
          (if k = ''length'' then Some (JNum (Fin (of_nat (length xs))))
           else case array_index k of
                  Some i \<Rightarrow> if i < length xs then Some (xs ! i) else None
                | None \<Rightarrow> None)
      | _ \<Rightarrow> None)"

text \<open>
  A read that has reached \<^verbatim>\<open>Object.prototype\<close>. The getter of \<^verbatim>\<open>__proto__\<close> returns the
  prototype of the object on which the read started.
\<close>

definition object_prototype_read :: "lookup \<Rightarrow> string \<Rightarrow> lookup" where
  "object_prototype_read receiver_proto k =
     (if k = ''__proto__'' then receiver_proto
      else if k \<in> set object_prototype_keys then Builtin (''Object.prototype.'' @ k)
      else Value JUndefined)"

definition obj_read :: "ordinary_object \<Rightarrow> string \<Rightarrow> lookup" where
  "obj_read m k =
     (case map_of (own m) k of
        Some v \<Rightarrow> Value v
      | None \<Rightarrow>
          (case proto m of
             NullPrototype \<Rightarrow> Value JUndefined
           | ObjectPrototype \<Rightarrow> object_prototype_read (Builtin ''Object.prototype'') k
           | DataPrototype d \<Rightarrow>
               (case own_read d k of
                  Some v \<Rightarrow> Value v
                | None \<Rightarrow>
                    if is_array d \<and> k \<in> set array_prototype_keys
                    then Builtin (''Array.prototype.'' @ k)
                    else object_prototype_read (Value d) k)))"

definition reaches_proto_setter :: "ordinary_object \<Rightarrow> bool" where
  "reaches_proto_setter m =
     (case proto m of
        ObjectPrototype \<Rightarrow> True
      | NullPrototype \<Rightarrow> False
      | DataPrototype d \<Rightarrow> own_read d ''__proto__'' = None)"

definition proto_setter :: "jsval \<Rightarrow> ordinary_object \<Rightarrow> ordinary_object" where
  "proto_setter v m =
     (if is_object v then m\<lparr>proto := DataPrototype v\<rparr>
      else if v = JNull then m\<lparr>proto := NullPrototype\<rparr>
      else m)"

definition obj_assign :: "string \<Rightarrow> jsval \<Rightarrow> ordinary_object \<Rightarrow> ordinary_object" where
  "obj_assign k v m =
     (if k = ''__proto__'' \<and> k \<notin> set (map fst (own m)) \<and> reaches_proto_setter m
      then proto_setter v m
      else m\<lparr>own := obj_define k v (own m)\<rparr>)"

text \<open>Truthiness and spreading of what a read returned; a built-in is an object.\<close>

definition truthy_lookup :: "lookup \<Rightarrow> bool" where
  "truthy_lookup l = (case l of Value v \<Rightarrow> truthy v | Builtin _ \<Rightarrow> True)"

definition lookup_entries :: "lookup \<Rightarrow> props" where
  "lookup_entries l = (case l of Value v \<Rightarrow> own_entries v | Builtin _ \<Rightarrow> [])"

text \<open>
  A field of a state or data object, read as \<^verbatim>\<open>obj.name\<close> with a name that no prototype
  defines: the own property, or \<^verbatim>\<open>undefined\<close>.
\<close>

definition get_field :: "jsval \<Rightarrow> string \<Rightarrow> jsval" where
  "get_field obj name =
     (case obj of
        JObj ps \<Rightarrow> (case map_of ps name of Some v \<Rightarrow> v | None \<Rightarrow> JUndefined)
      | _ \<Rightarrow> JUndefined)"

section \<open>StorageManager\<close>

text \<open>
  \<^verbatim>\<open>window.storage\<close> is an interface of the host, the "key-value store" of the
  specification; the repository calls it and does not define it. It is taken as a store
  that holds a text under some keys. A write is accepted, and then a later read of the key
  returns that text, or it is refused (the call returns \<^verbatim>\<open>null\<close>) or it fails (the call
  throws). A read of a key without text returns nothing or throws.
\<close>

datatype host_reply = Accepted | Refused | Failed

record StorageManager =
  useNativeStorage :: bool
  memoryStorage :: ordinary_object
  window_storage :: "string \<Rightarrow> json_text option"

text \<open>The constructor: \<^verbatim>\<open>window.storage\<close> is defined (\<open>Some\<close>) or not.\<close>

definition new_StorageManager :: "(string \<Rightarrow> json_text option) option \<Rightarrow> StorageManager" where
  "new_StorageManager host =
     \<lparr>useNativeStorage = (host \<noteq> None),
      memoryStorage = empty_object,
      window_storage = (case host of Some c \<Rightarrow> c | None \<Rightarrow> (\<lambda>k. None))\<rparr>"

text \<open>
  \<^verbatim>\<open>get(key, defaultValue)\<close>. Every failure of the host and of \<^verbatim>\<open>JSON.parse\<close> is caught and
  answered with the default.
\<close>

definition storage_get :: "string \<Rightarrow> lookup \<Rightarrow> StorageManager \<Rightarrow> lookup" where
  "storage_get key defaultValue sm =
     (if useNativeStorage sm then
        (case window_storage sm key of
           None \<Rightarrow> defaultValue
         | Some t \<Rightarrow> (case JSON_parse t of Inl _ \<Rightarrow> defaultValue | Inr v \<Rightarrow> Value v))
      else
        (if obj_read (memoryStorage sm) key \<noteq> Value JUndefined
         then obj_read (memoryStorage sm) key
         else defaultValue))"

text \<open>
  \<^verbatim>\<open>set(key, value)\<close>, with the reply of the host as a parameter. The result is the manager
  after the call and the boolean that the call returns. The memory backend keeps the value
  itself.
\<close>

definition storage_set ::
  "host_reply \<Rightarrow> string \<Rightarrow> jsval \<Rightarrow> StorageManager \<Rightarrow> StorageManager \<times> bool" where
  "storage_set reply key value sm =
     (let data = JSON_stringify value
      in if useNativeStorage sm then
           (case reply of
              Accepted \<Rightarrow> (sm\<lparr>window_storage := (window_storage sm)(key := data)\<rparr>, True)
            | Refused \<Rightarrow> (sm, False)
            | Failed \<Rightarrow> (sm, False))
         else (sm\<lparr>memoryStorage := obj_assign key value (memoryStorage sm)\<rparr>, True))"

section \<open>AnalyticsManager\<close>

text \<open>
  \<^verbatim>\<open>Array.prototype.sort\<close> with a comparison function, as a stable insertion sort. The
  comparison used by the planner is \<^verbatim>\<open>localeCompare\<close>, whose result depends on the host's
  locale: it is a parameter.
\<close>

fun insert_by :: "('a \<Rightarrow> 'a \<Rightarrow> int) \<Rightarrow> 'a \<Rightarrow> 'a list \<Rightarrow> 'a list" where
  "insert_by cmp x [] = [x]"
| "insert_by cmp x (y # ys) =
     (if cmp x y \<le> 0 then x # y # ys else y # insert_by cmp x ys)"

definition sort_by :: "('a \<Rightarrow> 'a \<Rightarrow> int) \<Rightarrow> 'a list \<Rightarrow> 'a list" where
  "sort_by cmp xs = foldr (insert_by cmp) xs []"

text \<open>
  \<^verbatim>\<open>calculateStreak(completedReadings)\<close>. The date \<open>today\<close> is computed by the source and
  never used afterwards.
\<close>

definition calculateStreak ::
  "(string \<Rightarrow> string \<Rightarrow> int) \<Rightarrow> nat \<Rightarrow> jsval \<Rightarrow> error + nat" where
  "calculateStreak localeCompare today completedReadings =
     (case Object_entries completedReadings of
        Inl e \<Rightarrow> Inl e
      | Inr entries \<Rightarrow>
          let sortedReadings =
                sort_by (\<lambda>a b. localeCompare (fst b) (fst a))
                  (filter (\<lambda>(_, completed). truthy completed) entries);
              streak = (if length sortedReadings > 0
                        then min (length sortedReadings) 30 else 0)
          in Inr streak)"

text \<open>
  \<^verbatim>\<open>celebrateCompletion\<close> shows a toast when the streak is a positive multiple of seven; the
  toast calls the number a day streak. Its text starts with the character U+1F389, given
  here by the four bytes of its UTF-8 form.
\<close>

definition party_popper :: string where
  "party_popper = [CHR 0xF0, CHR 0x9F, CHR 0x8E, CHR 0x89]"

definition celebrateCompletion ::
  "(string \<Rightarrow> string \<Rightarrow> int) \<Rightarrow> nat \<Rightarrow> jsval \<Rightarrow> error + string option" where
  "celebrateCompletion localeCompare today completedReadings =
     (case calculateStreak localeCompare today completedReadings of
        Inl e \<Rightarrow> Inl e
      | Inr streak \<Rightarrow>
          Inr (if streak > 0 \<and> streak mod 7 = 0
               then Some (party_popper @ '' '' @ string_of_nat streak
                            @ '' day streak! Keep it up!'')
               else None))"

subsection \<open>Double-precision arithmetic\<close>

text \<open>
  JavaScript computes on doubles with rounding to nearest, ties to even. \<open>binexp x\<close> is the
  binary exponent of a positive rational: \<open>2 ^ e \<le> x < 2 ^ (e + 1)\<close>. \<open>to_double x\<close> is the
  double nearest to \<open>x\<close>: 53 significant bits in the normal range, the fixed spacing
  \<open>2 ^ (-1074)\<close> below \<open>2 ^ (-1022)\<close>, an infinity from \<open>2 ^ 1024\<close> on.
\<close>

definition round_half_even :: "rat \<Rightarrow> int" where
  "round_half_even x =
     (let f = \<lfloor>x\<rfloor>; d = x - of_int f
      in if d < 1 / 2 then f else if 1 / 2 < d then f + 1
         else if even f then f else f + 1)"

definition binexp :: "rat \<Rightarrow> int" where
  "binexp x =
     (let (a, b) = quotient_of x; d = bitlen a - bitlen b
      in if 2 powi d \<le> x then d else d - 1)"

definition to_double :: "rat \<Rightarrow> number" where
  "to_double x =
     (if x = 0 then Fin 0
      else let e = max (binexp \<bar>x\<bar>) (- 1022);
               u = 2 powi (e - 52);
               r = of_int (round_half_even (x / u)) * u
           in if 2 powi 1024 \<le> r then Infinity
              else if r \<le> - (2 powi 1024) then NegInfinity
              else Fin r)"

text \<open>
  The operations \<^verbatim>\<open>a / b\<close>, \<^verbatim>\<open>x * b\<close> and \<^verbatim>\<open>a - b\<close> as the analytics code uses them: the
  operands written \<open>a\<close> and \<open>b\<close> are finite.
\<close>

definition div_double :: "rat \<Rightarrow> rat \<Rightarrow> number" where
  "div_double a b =
     (if b = 0 then (if a = 0 then NaN else if 0 < a then Infinity else NegInfinity)
      else to_double (a / b))"

fun mul_double :: "number \<Rightarrow> rat \<Rightarrow> number" where
  "mul_double (Fin a) b = to_double (a * b)"
| "mul_double NaN b = NaN"
| "mul_double Infinity b = (if 0 < b then Infinity else if b < 0 then NegInfinity else NaN)"
| "mul_double NegInfinity b = (if 0 < b then NegInfinity else if b < 0 then Infinity else NaN)"

definition sub_double :: "rat \<Rightarrow> rat \<Rightarrow> number" where
  "sub_double a b = to_double (a - b)"

text \<open>\<^verbatim>\<open>Math.round\<close>: the nearest integer, a tie going up.\<close>

fun Math_round :: "number \<Rightarrow> number" where
  "Math_round (Fin y) = Fin (of_int \<lfloor>y + 1 / 2\<rfloor>)"
| "Math_round x = x"

subsection \<open>Progress insights\<close>

record insights =
  percentComplete :: number
  readingsCompleted :: nat
  readingsRemaining :: number
  currentStreak :: nat
  totalReadings :: rat

text \<open>\<^verbatim>\<open>getProgressInsights(completedReadings, totalReadings)\<close>.\<close>

definition getProgressInsights ::
  "(string \<Rightarrow> string \<Rightarrow> int) \<Rightarrow> nat \<Rightarrow> jsval \<Rightarrow> rat \<Rightarrow> error + insights" where
  "getProgressInsights localeCompare today completedReadings total_readings =
     (case Object_values completedReadings of
        Inl e \<Rightarrow> Inl e
      | Inr vals \<Rightarrow>
          let completed = length (filter truthy vals);
              percentage = Math_round (mul_double (div_double (of_nat completed) total_readings) 100)
          in case calculateStreak localeCompare today completedReadings of
               Inl e \<Rightarrow> Inl e
             | Inr streak \<Rightarrow>
                 Inr \<lparr>percentComplete = percentage,
                      readingsCompleted = completed,
                      readingsRemaining = sub_double total_readings (of_nat completed),
                      currentStreak = streak,
                      totalReadings = total_readings\<rparr>)"

text \<open>The number of entries of a completion map that hold a truthy value.\<close>

definition truthy_count :: "props \<Rightarrow> nat" where
  "truthy_count ps = length (filter (\<lambda>(_, completed). truthy completed) ps)"

section \<open>EthiopianBiblePlanner\<close>

subsection \<open>Content data\<close>

text \<open>
  The static tables of the application. Of every entry the identifying and numeric fields
  are kept, with one or two of its texts; the remaining display texts (names in Ethiopic
  script, study questions, memory verses and the like) are read by the rendering code
  only.
\<close>

record month =
  month_id :: string
  month_days :: nat
  season :: string

record holy_day =
  holy_month :: string
  holy_day_no :: nat
  holy_date :: string

record ministry_event =
  event_month :: string
  event_day :: nat
  event_type :: string

record plan_week =
  week :: nat
  readings :: string

record month_plan =
  weeks :: nat
  theme :: string
  weeklyBreakdown :: "plan_week list"

record nt_day =
  day :: nat
  chapters :: nat

record nt_section =
  days :: string
  reading :: string
  dailyBreakdown :: "nt_day list"

record discipleship_week =
  disc_week :: nat
  topic :: string

subsection \<open>The planner object\<close>

text \<open>
  The fields of the planner that hold data, and the part of the host that its timers
  live in: the identifiers of the pending timeouts that \<^verbatim>\<open>saveStateDebounced\<close> created, and
  the number of timeouts created so far (the host numbers them from 1). The DOM, the
  toasts and the colours are not part of the model.
\<close>

record planner =
  storage :: StorageManager
  state :: props
  ethiopianMonths :: "month list"
  holyDays :: "holy_day list"
  ministryEvents :: "ministry_event list"
  chronologicalPlan :: "(string \<times> month_plan) list"
  ntIntensive :: "nt_section list"
  discipleshipWeeks :: "discipleship_week list"
  saveDebounceTimer :: "nat option"
  pending_timers :: "nat list"
  timers_created :: nat

definition default_state :: props where
  "default_state =
     [(''activeTab'', JStr ''calendar''),
      (''selectedMonth'', JStr ''meskerem''),
      (''selectedPlan'', JStr ''chronological''),
      (''expandedWeeks'', JObj []),
      (''completedReadings'', JObj []),
      (''showStats'', JBool False),
      (''darkMode'', JBool False),
      (''reminderTime'', JStr ''07:00'')]"

definition initializeMonthsAndEvents :: "planner \<Rightarrow> planner" where
  "initializeMonthsAndEvents p = p
    \<lparr>ethiopianMonths :=
     [\<lparr>month_id = ''meskerem'', month_days = 30, season = ''Spring''\<rparr>,
      \<lparr>month_id = ''tikimt'', month_days = 30, season = ''Spring''\<rparr>,
      \<lparr>month_id = ''hidar'', month_days = 30, season = ''Spring''\<rparr>,
      \<lparr>month_id = ''tahsas'', month_days = 30, season = ''Winter''\<rparr>,
      \<lparr>month_id = ''tir'', month_days = 30, season = ''Winter''\<rparr>,
      \<lparr>month_id = ''yekatit'', month_days = 30, season = ''Winter''\<rparr>,
      \<lparr>month_id = ''megabit'', month_days = 30, season = ''Summer''\<rparr>,
      \<lparr>month_id = ''miazia'', month_days = 30, season = ''Summer''\<rparr>,
      \<lparr>month_id = ''ginbot'', month_days = 30, season = ''Summer''\<rparr>,
      \<lparr>month_id = ''sene'', month_days = 30, season = ''Rainy''\<rparr>,
      \<lparr>month_id = ''hamle'', month_days = 30, season = ''Rainy''\<rparr>,
      \<lparr>month_id = ''nehase'', month_days = 30, season = ''Rainy''\<rparr>,
      \<lparr>month_id = ''pagume'', month_days = 5, season = ''Special''\<rparr>],
     holyDays :=
     [\<lparr>holy_month = ''meskerem'', holy_day_no = 1, holy_date = ''Sep 11, 2025''\<rparr>,
      \<lparr>holy_month = ''meskerem'', holy_day_no = 17, holy_date = ''Sep 27, 2025''\<rparr>,
      \<lparr>holy_month = ''tahsas'', holy_day_no = 29, holy_date = ''Jan 7, 2026''\<rparr>,
      \<lparr>holy_month = ''tir'', holy_day_no = 11, holy_date = ''Jan 19, 2026''\<rparr>,
      \<lparr>holy_month = ''nehase'', holy_day_no = 16, holy_date = ''Aug 22, 2026''\<rparr>],
     ministryEvents :=
     [\<lparr>event_month = ''tir'', event_day = 4, event_type = ''milestone''\<rparr>,
      \<lparr>event_month = ''meskerem'', event_day = 1, event_type = ''launch''\<rparr>,
      \<lparr>event_month = ''megabit'', event_day = 1, event_type = ''evaluation''\<rparr>,
      \<lparr>event_month = ''nehase'', event_day = 30, event_type = ''milestone''\<rparr>]\<rparr>"

definition initializeChronologicalPlan :: "planner \<Rightarrow> planner" where
  "initializeChronologicalPlan p = p
    \<lparr>chronologicalPlan :=
      [(''meskerem'',
        \<lparr>weeks = 4, theme = ''Creation to Exodus'',
         weeklyBreakdown =
           [\<lparr>week = 1, readings = ''Genesis 1-11''\<rparr>,
            \<lparr>week = 2, readings = ''Genesis 12-25''\<rparr>,
            \<lparr>week = 3, readings = ''Genesis 26-50''\<rparr>,
            \<lparr>week = 4, readings = ''Exodus 1-14''\<rparr>]\<rparr>),
       (''tikimt'',
        \<lparr>weeks = 4, theme = ''Wilderness & Law'',
         weeklyBreakdown =
           [\<lparr>week = 5, readings = ''Exodus 15-18''\<rparr>,
            \<lparr>week = 6, readings = ''Exodus 19-24''\<rparr>,
            \<lparr>week = 7, readings = ''Exodus 25-40''\<rparr>,
            \<lparr>week = 8, readings = ''Leviticus 1-27''\<rparr>]\<rparr>),
       (''hidar'',
        \<lparr>weeks = 4, theme = ''Wilderness Wanderings'',
         weeklyBreakdown =
           [\<lparr>week = 9, readings = ''Numbers 1-10''\<rparr>,
            \<lparr>week = 10, readings = ''Numbers 11-21''\<rparr>,
            \<lparr>week = 11, readings = ''Numbers 22-36''\<rparr>,
            \<lparr>week = 12, readings = ''Deuteronomy 1-34''\<rparr>]\<rparr>),
       (''tahsas'',
        \<lparr>weeks = 4, theme = ''Conquest & Judges'',
         weeklyBreakdown =
           [\<lparr>week = 13, readings = ''Joshua 1-12''\<rparr>,
            \<lparr>week = 14, readings = ''Joshua 13-24''\<rparr>,
            \<lparr>week = 15, readings = ''Judges 1-16''\<rparr>,
            \<lparr>week = 16, readings = ''Judges 17-21; Ruth 1-4''\<rparr>]\<rparr>),
       (''tir'',
        \<lparr>weeks = 4, theme = ''United Kingdom'',
         weeklyBreakdown =
           [\<lparr>week = 17, readings = ''1 Samuel 1-15''\<rparr>,
            \<lparr>week = 18, readings = ''1 Samuel 16-31''\<rparr>,
            \<lparr>week = 19, readings = ''2 Samuel 1-12''\<rparr>,
            \<lparr>week = 20, readings = ''2 Samuel 13-24''\<rparr>]\<rparr>),
       (''yekatit'',
        \<lparr>weeks = 4, theme = ''Divided Kingdom'',
         weeklyBreakdown =
           [\<lparr>week = 21, readings = ''1 Kings 1-11; 1 Chronicles 1-9''\<rparr>,
            \<lparr>week = 22, readings = ''1 Kings 12-22; 1 Chronicles 10-21''\<rparr>,
            \<lparr>week = 23, readings = ''2 Kings 1-17; 1 Chronicles 22-29''\<rparr>,
            \<lparr>week = 24, readings = ''2 Kings 18-25; 2 Chronicles 1-36''\<rparr>]\<rparr>),
       (''megabit'',
        \<lparr>weeks = 4, theme = ''Return & Restoration'',
         weeklyBreakdown =
           [\<lparr>week = 25, readings = ''Ezra 1-10; Nehemiah 1-7''\<rparr>,
            \<lparr>week = 26, readings = ''Nehemiah 8-13; Esther 1-10''\<rparr>,
            \<lparr>week = 27, readings = ''Job 1-21''\<rparr>,
            \<lparr>week = 28, readings = ''Job 22-42''\<rparr>]\<rparr>),
       (''miazia'',
        \<lparr>weeks = 4, theme = ''Wisdom & Worship'',
         weeklyBreakdown =
           [\<lparr>week = 29, readings = ''Psalms 1-41''\<rparr>,
            \<lparr>week = 30, readings = ''Psalms 42-89; Proverbs 1-9''\<rparr>,
            \<lparr>week = 31, readings = ''Psalms 90-118; Proverbs 10-20''\<rparr>,
            \<lparr>week = 32, readings = ''Psalms 119-150; Proverbs 21-31''\<rparr>]\<rparr>),
       (''ginbot'',
        \<lparr>weeks = 4, theme = ''Prophets Begin'',
         weeklyBreakdown =
           [\<lparr>week = 33, readings = ''Ecclesiastes 1-12; Song of Songs 1-8''\<rparr>,
            \<lparr>week = 34, readings = ''Isaiah 1-23''\<rparr>,
            \<lparr>week = 35, readings = ''Isaiah 24-39''\<rparr>,
            \<lparr>week = 36, readings = ''Isaiah 40-66''\<rparr>]\<rparr>),
       (''sene'',
        \<lparr>weeks = 4, theme = ''Weeping Prophet'',
         weeklyBreakdown =
           [\<lparr>week = 37, readings = ''Jeremiah 1-20''\<rparr>,
            \<lparr>week = 38, readings = ''Jeremiah 21-36''\<rparr>,
            \<lparr>week = 39, readings = ''Jeremiah 37-52; Lamentations 1-5''\<rparr>,
            \<lparr>week = 40, readings = ''Review Jeremiah passages''\<rparr>]\<rparr>),
       (''hamle'',
        \<lparr>weeks = 4, theme = ''Exile Prophets'',
         weeklyBreakdown =
           [\<lparr>week = 41, readings = ''Ezekiel 1-24''\<rparr>,
            \<lparr>week = 42, readings = ''Ezekiel 25-48''\<rparr>,
            \<lparr>week = 43, readings = ''Daniel 1-6''\<rparr>,
            \<lparr>week = 44, readings = ''Daniel 7-12''\<rparr>]\<rparr>),
       (''nehase'',
        \<lparr>weeks = 4, theme = ''Prophecy Fulfilled'',
         weeklyBreakdown =
           [\<lparr>week = 45, readings = ''Hosea, Joel, Amos, Obadiah, Jonah, Micah''\<rparr>,
            \<lparr>week = 46, readings = ''Nahum, Habakkuk, Zephaniah, Haggai, Zechariah, Malachi''\<rparr>,
            \<lparr>week = 47, readings = ''Matthew 1-12; Mark 1-6; Luke 1-8; John 1-8''\<rparr>,
            \<lparr>week = 48, readings = ''Matthew 13-28; Mark 7-16; Luke 9-24; John 9-21''\<rparr>]\<rparr>),
       (''pagume'',
        \<lparr>weeks = 1, theme = ''Church & Eternity'',
         weeklyBreakdown =
           [\<lparr>week = 49, readings = ''Acts 1-28; Revelation 1-22''\<rparr>]\<rparr>)]\<rparr>"

definition initializeNT90Plan :: "planner \<Rightarrow> planner" where
  "initializeNT90Plan p = p
    \<lparr>ntIntensive :=
      [\<lparr>days = ''1-9'', reading = ''Matthew 1-28'',
        dailyBreakdown =
         [\<lparr>day = 1, chapters = 4\<rparr>,
          \<lparr>day = 2, chapters = 3\<rparr>,
          \<lparr>day = 3, chapters = 3\<rparr>,
          \<lparr>day = 4, chapters = 3\<rparr>,
          \<lparr>day = 5, chapters = 5\<rparr>,
          \<lparr>day = 6, chapters = 4\<rparr>,
          \<lparr>day = 7, chapters = 3\<rparr>,
          \<lparr>day = 8, chapters = 3\<rparr>,
          \<lparr>day = 9, chapters = 0\<rparr>]\<rparr>,
       \<lparr>days = ''10-15'', reading = ''Mark 1-16'',
        dailyBreakdown =
         [\<lparr>day = 10, chapters = 3\<rparr>,
          \<lparr>day = 11, chapters = 3\<rparr>,
          \<lparr>day = 12, chapters = 3\<rparr>,
          \<lparr>day = 13, chapters = 3\<rparr>,
          \<lparr>day = 14, chapters = 2\<rparr>,
          \<lparr>day = 15, chapters = 2\<rparr>]\<rparr>,
       \<lparr>days = ''16-23'', reading = ''Luke 1-24'',
        dailyBreakdown =
         [\<lparr>day = 16, chapters = 3\<rparr>,
          \<lparr>day = 17, chapters = 3\<rparr>,
          \<lparr>day = 18, chapters = 3\<rparr>,
          \<lparr>day = 19, chapters = 3\<rparr>,
          \<lparr>day = 20, chapters = 3\<rparr>,
          \<lparr>day = 21, chapters = 3\<rparr>,
          \<lparr>day = 22, chapters = 3\<rparr>,
          \<lparr>day = 23, chapters = 3\<rparr>]\<rparr>,
       \<lparr>days = ''24-30'', reading = ''John 1-21'',
        dailyBreakdown =
         [\<lparr>day = 24, chapters = 3\<rparr>,
          \<lparr>day = 25, chapters = 3\<rparr>,
          \<lparr>day = 26, chapters = 3\<rparr>,
          \<lparr>day = 27, chapters = 3\<rparr>,
          \<lparr>day = 28, chapters = 3\<rparr>,
          \<lparr>day = 29, chapters = 3\<rparr>,
          \<lparr>day = 30, chapters = 3\<rparr>]\<rparr>,
       \<lparr>days = ''31-45'', reading = ''Acts 1-28'',
        dailyBreakdown =
         [\<lparr>day = 31, chapters = 3\<rparr>,
          \<lparr>day = 32, chapters = 3\<rparr>,
          \<lparr>day = 33, chapters = 2\<rparr>,
          \<lparr>day = 34, chapters = 2\<rparr>,
          \<lparr>day = 35, chapters = 3\<rparr>,
          \<lparr>day = 36, chapters = 3\<rparr>,
          \<lparr>day = 37, chapters = 3\<rparr>,
          \<lparr>day = 38, chapters = 3\<rparr>,
          \<lparr>day = 39, chapters = 3\<rparr>,
          \<lparr>day = 40, chapters = 3\<rparr>]\<rparr>,
       \<lparr>days = ''46-60'', reading = ''Romans & Corinthians'',
        dailyBreakdown =
         [\<lparr>day = 46, chapters = 3\<rparr>,
          \<lparr>day = 47, chapters = 3\<rparr>,
          \<lparr>day = 48, chapters = 2\<rparr>,
          \<lparr>day = 49, chapters = 3\<rparr>,
          \<lparr>day = 50, chapters = 5\<rparr>,
          \<lparr>day = 51, chapters = 4\<rparr>,
          \<lparr>day = 52, chapters = 4\<rparr>,
          \<lparr>day = 53, chapters = 3\<rparr>,
          \<lparr>day = 54, chapters = 3\<rparr>,
          \<lparr>day = 55, chapters = 2\<rparr>,
          \<lparr>day = 56, chapters = 4\<rparr>,
          \<lparr>day = 57, chapters = 4\<rparr>,
          \<lparr>day = 58, chapters = 5\<rparr>]\<rparr>,
       \<lparr>days = ''61-75'', reading = ''Paul's Letters'',
        dailyBreakdown =
         [\<lparr>day = 61, chapters = 3\<rparr>,
          \<lparr>day = 62, chapters = 3\<rparr>,
          \<lparr>day = 63, chapters = 3\<rparr>,
          \<lparr>day = 64, chapters = 3\<rparr>,
          \<lparr>day = 65, chapters = 2\<rparr>,
          \<lparr>day = 66, chapters = 2\<rparr>,
          \<lparr>day = 67, chapters = 2\<rparr>,
          \<lparr>day = 68, chapters = 2\<rparr>,
          \<lparr>day = 69, chapters = 3\<rparr>,
          \<lparr>day = 70, chapters = 2\<rparr>,
          \<lparr>day = 71, chapters = 3\<rparr>,
          \<lparr>day = 72, chapters = 3\<rparr>,
          \<lparr>day = 73, chapters = 3\<rparr>,
          \<lparr>day = 74, chapters = 2\<rparr>,
          \<lparr>day = 75, chapters = 2\<rparr>]\<rparr>,
       \<lparr>days = ''76-90'', reading = ''General Letters & Revelation'',
        dailyBreakdown =
         [\<lparr>day = 76, chapters = 3\<rparr>,
          \<lparr>day = 77, chapters = 1\<rparr>,
          \<lparr>day = 78, chapters = 4\<rparr>,
          \<lparr>day = 79, chapters = 3\<rparr>,
          \<lparr>day = 80, chapters = 3\<rparr>,
          \<lparr>day = 81, chapters = 3\<rparr>,
          \<lparr>day = 82, chapters = 3\<rparr>,
          \<lparr>day = 83, chapters = 2\<rparr>,
          \<lparr>day = 84, chapters = 3\<rparr>,
          \<lparr>day = 85, chapters = 2\<rparr>,
          \<lparr>day = 86, chapters = 3\<rparr>,
          \<lparr>day = 87, chapters = 3\<rparr>,
          \<lparr>day = 88, chapters = 2\<rparr>,
          \<lparr>day = 89, chapters = 3\<rparr>,
          \<lparr>day = 90, chapters = 22\<rparr>]\<rparr>]\<rparr>"

definition initializeDiscipleshipWeeks :: "planner \<Rightarrow> planner" where
  "initializeDiscipleshipWeeks p = p
    \<lparr>discipleshipWeeks :=
      [\<lparr>disc_week = 1, topic = ''Salvation & New Life''\<rparr>,
       \<lparr>disc_week = 2, topic = ''The Word of God''\<rparr>,
       \<lparr>disc_week = 3, topic = ''Prayer & Communion with God''\<rparr>,
       \<lparr>disc_week = 4, topic = ''The Holy Spirit''\<rparr>,
       \<lparr>disc_week = 5, topic = ''The Church & Community''\<rparr>,
       \<lparr>disc_week = 6, topic = ''Spiritual Warfare''\<rparr>,
       \<lparr>disc_week = 7, topic = ''Evangelism & Witnessing''\<rparr>,
       \<lparr>disc_week = 8, topic = ''Stewardship & Generosity''\<rparr>,
       \<lparr>disc_week = 9, topic = ''God's Will & Decision Making''\<rparr>,
       \<lparr>disc_week = 10, topic = ''Relationships & Marriage''\<rparr>,
       \<lparr>disc_week = 11, topic = ''Parenting & Family''\<rparr>,
       \<lparr>disc_week = 12, topic = ''Work & Vocation''\<rparr>,
       \<lparr>disc_week = 13, topic = ''Suffering & Trials''\<rparr>,
       \<lparr>disc_week = 14, topic = ''Forgiveness & Reconciliation''\<rparr>,
       \<lparr>disc_week = 15, topic = ''Wisdom & Discernment''\<rparr>,
       \<lparr>disc_week = 16, topic = ''Eternal Perspective''\<rparr>]\<rparr>"

definition initializeAllData :: "planner \<Rightarrow> planner" where
  "initializeAllData p =
     initializeDiscipleshipWeeks
       (initializeNT90Plan (initializeChronologicalPlan (initializeMonthsAndEvents p)))"

text \<open>The constructor, given the host's \<^verbatim>\<open>window.storage\<close> if there is one.\<close>

definition new_EthiopianBiblePlanner :: "(string \<Rightarrow> json_text option) option \<Rightarrow> planner" where
  "new_EthiopianBiblePlanner host =
     initializeAllData
       \<lparr>storage = new_StorageManager host,
        state = default_state,
        ethiopianMonths = [],
        holyDays = [],
        ministryEvents = [],
        chronologicalPlan = [],
        ntIntensive = [],
        discipleshipWeeks = [],
        saveDebounceTimer = None,
        pending_timers = [],
        timers_created = 0\<rparr>"

text \<open>The six content structures of a planner.\<close>

definition content ::
  "planner \<Rightarrow> month list \<times> holy_day list \<times> ministry_event list
     \<times> (string \<times> month_plan) list \<times> nt_section list \<times> discipleship_week list" where
  "content p =
     (ethiopianMonths p, holyDays p, ministryEvents p,
      chronologicalPlan p, ntIntensive p, discipleshipWeeks p)"

subsection \<open>State management\<close>

definition state_key :: string where
  "state_key = ''bible-planner-state''"

text \<open>
  \<^verbatim>\<open>loadState\<close>: the saved value, when it is truthy, is spread over the state. The store
  never throws, it answers with the default \<^verbatim>\<open>null\<close>.
\<close>

definition loadState :: "planner \<Rightarrow> planner" where
  "loadState p =
     (let savedState = storage_get state_key (Value JNull) (storage p)
      in if truthy_lookup savedState
         then p\<lparr>state := copy_props (lookup_entries savedState)
                              (copy_props (state p) [])\<rparr>
         else p)"

text \<open>
  \<^verbatim>\<open>saveStateDebounced\<close>: a pending timeout of an earlier call is cancelled, and a new one
  is created whose callback writes the state.
\<close>

definition clearTimeout :: "nat \<Rightarrow> planner \<Rightarrow> planner" where
  "clearTimeout t p = p\<lparr>pending_timers := removeAll t (pending_timers p)\<rparr>"

definition saveStateDebounced :: "planner \<Rightarrow> planner" where
  "saveStateDebounced p =
     (let p1 = (case saveDebounceTimer p of
                  Some t \<Rightarrow> if t \<noteq> 0 then clearTimeout t p else p
                | None \<Rightarrow> p);
          t' = Suc (timers_created p1)
      in p1\<lparr>pending_timers := pending_timers p1 @ [t'],
             timers_created := t',
             saveDebounceTimer := Some t'\<rparr>)"

text \<open>
  The callback of that timeout: it writes the state that the planner has when the
  timeout fires. A refused write shows a toast and changes nothing else.
\<close>

definition save_callback :: "host_reply \<Rightarrow> planner \<Rightarrow> planner" where
  "save_callback reply p =
     (let (sm, success) = storage_set reply state_key (JObj (state p)) (storage p)
      in p\<lparr>storage := sm\<rparr>)"

definition timer_fires :: "nat \<Rightarrow> host_reply \<Rightarrow> planner \<Rightarrow> planner" where
  "timer_fires t reply p =
     (if t \<in> set (pending_timers p)
      then save_callback reply (p\<lparr>pending_timers := removeAll t (pending_timers p)\<rparr>)
      else p)"

text \<open>
  \<^verbatim>\<open>setState(newState)\<close>. After the merge and the scheduling of the write, \<^verbatim>\<open>updateUI\<close>
  redraws the page from the state; it assigns no field of the planner.
\<close>

definition setState :: "jsval \<Rightarrow> planner \<Rightarrow> planner" where
  "setState newState p =
     saveStateDebounced (p\<lparr>state := spread2 (JObj (state p)) newState\<rparr>)"

text \<open>
  \<^verbatim>\<open>toggleReading(readingId)\<close>: the completion map is copied into a fresh object, the flag
  of the reading is replaced by the negation of what a read of it returns, and the copy
  becomes the new \<^verbatim>\<open>completedReadings\<close>. The click handler of a week header does the same
  with \<^verbatim>\<open>expandedWeeks\<close>.
\<close>

definition toggled_copy :: "jsval \<Rightarrow> string \<Rightarrow> jsval" where
  "toggled_copy flags name =
     (let fresh = empty_object\<lparr>own := copy_props (own_entries flags) []\<rparr>;
          flipped = JBool (\<not> truthy_lookup (obj_read fresh name))
      in JObj (own (obj_assign name flipped fresh)))"

definition toggleReading :: "string \<Rightarrow> planner \<Rightarrow> planner" where
  "toggleReading readingId p =
     (let newCompletedReadings =
            toggled_copy (get_field (JObj (state p)) ''completedReadings'') readingId
      in setState (JObj [(''completedReadings'', newCompletedReadings)]) p)"

definition week_toggle_click :: "string \<Rightarrow> planner \<Rightarrow> planner" where
  "week_toggle_click weekId p =
     (let newExpandedWeeks =
            toggled_copy (get_field (JObj (state p)) ''expandedWeeks'') weekId
      in setState (JObj [(''expandedWeeks'', newExpandedWeeks)]) p)"

text \<open>
  \<^verbatim>\<open>importProgress(file)\<close>. The checksum is a prefix of the base-64 form of a JSON text,
  computed by the host's \<^verbatim>\<open>btoa\<close>, which can throw: it is a parameter, and so is the answer
  of the user who is asked whether to import a file whose checksum differs.
\<close>

definition js_or :: "jsval \<Rightarrow> jsval \<Rightarrow> jsval" where
  "js_or a b = (if truthy a then a else b)"

definition validateImportData :: "jsval \<Rightarrow> bool" where
  "validateImportData data =
     (truthy data \<and> is_object data \<and> truthy (get_field data ''version'')
      \<and> truthy (get_field data ''completedReadings'')
      \<and> is_object (get_field data ''completedReadings''))"

definition importProgress ::
  "(jsval \<Rightarrow> error + string) \<Rightarrow> bool \<Rightarrow> json_text \<Rightarrow> planner \<Rightarrow> planner" where
  "importProgress generateChecksum confirmed file_text p =
     (case JSON_parse file_text of
        Inl e \<Rightarrow> p
      | Inr data \<Rightarrow>
          if \<not> validateImportData data then p
          else case generateChecksum (get_field data ''completedReadings'') of
                 Inl e \<Rightarrow> p
               | Inr expected \<Rightarrow>
                   if get_field data ''checksum'' \<noteq> JStr expected \<and> \<not> confirmed then p
                   else setState
                          (JObj
                            [(''completedReadings'',
                                js_or (get_field data ''completedReadings'') (JObj [])),
                             (''selectedMonth'',
                                js_or (get_field data ''selectedMonth'') (JStr ''meskerem'')),
                             (''selectedPlan'',
                                js_or (get_field data ''selectedPlan'')
                                  (JStr ''chronological'')),
                             (''expandedWeeks'',
                                js_or (get_field data ''expandedWeeks'') (JObj []))])
                          p)"

subsection \<open>Progress\<close>

definition getTotalReadings :: "planner \<Rightarrow> nat" where
  "getTotalReadings p = foldl (\<lambda>acc (_, plan). acc + weeks plan) 0 (chronologicalPlan p)"

text \<open>\<^verbatim>\<open>updateProgress\<close> shows the insights for the total of \<^verbatim>\<open>getTotalReadings\<close>.\<close>

definition updateProgress ::
  "(string \<Rightarrow> string \<Rightarrow> int) \<Rightarrow> nat \<Rightarrow> planner \<Rightarrow> error + insights" where
  "updateProgress localeCompare today p =
     getProgressInsights localeCompare today
       (get_field (JObj (state p)) ''completedReadings'') (of_nat (getTotalReadings p))"

subsection \<open>Rendering: the reading identifiers\<close>

text \<open>
  Every rendering function builds markup. Of that markup the model keeps the reading
  identifier that the function computes and writes into the \<^verbatim>\<open>data-reading\<close> attribute of
  the completion button; the identifier is the key of the unit in the completion map.
\<close>

definition renderWeekCard :: "plan_week \<Rightarrow> string \<Rightarrow> string" where
  "renderWeekCard w monthId = ''chrono-'' @ monthId @ ''-'' @ string_of_nat (week w)"

definition renderChronologicalPlanContent :: "planner \<Rightarrow> string list" where
  "renderChronologicalPlanContent p =
     concat (map (\<lambda>(monthId, plan).
                    case find (\<lambda>m. month_id m = monthId) (ethiopianMonths p) of
                      None \<Rightarrow> []
                    | Some m \<Rightarrow> map (\<lambda>w. renderWeekCard w monthId) (weeklyBreakdown plan))
                 (chronologicalPlan p))"

definition renderNTDay :: "nt_day \<Rightarrow> string \<Rightarrow> string" where
  "renderNTDay d sectionId = sectionId @ ''-day-'' @ string_of_nat (day d)"

definition renderNTSection :: "nt_section \<Rightarrow> nat \<Rightarrow> string list" where
  "renderNTSection section idx =
     (let sectionId = ''nt90-'' @ string_of_nat idx
      in sectionId # map (\<lambda>d. renderNTDay d sectionId) (dailyBreakdown section))"

definition renderNT90Plan :: "planner \<Rightarrow> string list" where
  "renderNT90Plan p =
     concat (map (\<lambda>(section, idx). renderNTSection section idx)
                 (zip (ntIntensive p) [0 ..< length (ntIntensive p)]))"

definition renderDiscipleshipWeek :: "discipleship_week \<Rightarrow> string" where
  "renderDiscipleshipWeek w = ''disc-'' @ string_of_nat (disc_week w)"

definition renderDiscipleship :: "planner \<Rightarrow> string list" where
  "renderDiscipleship p = map renderDiscipleshipWeek (discipleshipWeeks p)"

text \<open>
  The calendar tab: \<^verbatim>\<open>renderMonthSelector\<close> writes one button for every month, with the
  identifier of the month in its \<^verbatim>\<open>data-month\<close> attribute; \<^verbatim>\<open>renderMonthDetails\<close> looks the
  selected month up and lists its holy days and ministry events, of which the dates and
  the event types are kept here.
\<close>

definition renderMonthSelector :: "planner \<Rightarrow> string list" where
  "renderMonthSelector p = map month_id (ethiopianMonths p)"

definition renderMonthDetails :: "planner \<Rightarrow> string list" where
  "renderMonthDetails p =
     (let selectedMonth = get_field (JObj (state p)) ''selectedMonth''
      in case find (\<lambda>m. JStr (month_id m) = selectedMonth) (ethiopianMonths p) of
           None \<Rightarrow> []
         | Some monthData \<Rightarrow>
             map holy_date (filter (\<lambda>h. JStr (holy_month h) = selectedMonth) (holyDays p))
             @ map event_type
                 (filter (\<lambda>e. JStr (event_month e) = selectedMonth) (ministryEvents p)))"

text \<open>
  \<^verbatim>\<open>updateUI\<close> redraws the month details and, according to the active tab and the selected
  plan, one of the plans.
\<close>

definition updateUI :: "planner \<Rightarrow> string list" where
  "updateUI p =
     renderMonthDetails p
     @ (if get_field (JObj (state p)) ''activeTab'' = JStr ''reading''
        then (if get_field (JObj (state p)) ''selectedPlan'' = JStr ''chronological''
              then renderChronologicalPlanContent p
              else renderNT90Plan p)
        else if get_field (JObj (state p)) ''activeTab'' = JStr ''discipleship''
        then renderDiscipleship p
        else [])"

text \<open>All reading identifiers of the three plans.\<close>

definition reading_identifiers :: "planner \<Rightarrow> string list" where
  "reading_identifiers p =
     renderChronologicalPlanContent p @ renderNT90Plan p @ renderDiscipleship p"


subsection \<open>Teardown\<close>

text \<open>
  \<^verbatim>\<open>destroy\<close> runs when the page is unloaded. It cancels the pending write and sets the
  storage, the state and three of the content fields to \<^verbatim>\<open>null\<close>. The record \<open>torn_down\<close>
  is what is left of the planner: the fields that the model keeps, without the storage
  and the state.
\<close>

record torn_down =
  left_ethiopianMonths :: "month list"
  left_holyDays :: "holy_day list"
  left_ministryEvents :: "ministry_event list"
  left_chronologicalPlan :: "(string \<times> month_plan) list option"
  left_ntIntensive :: "nt_section list option"
  left_discipleshipWeeks :: "discipleship_week list option"
  left_pending_timers :: "nat list"

definition destroy :: "planner \<Rightarrow> torn_down" where
  "destroy p =
     \<lparr>left_ethiopianMonths = ethiopianMonths p,
      left_holyDays = holyDays p,
      left_ministryEvents = ministryEvents p,
      left_chronologicalPlan = None,
      left_ntIntensive = None,
      left_discipleshipWeeks = None,
      left_pending_timers =
        (case saveDebounceTimer p of
           Some t \<Rightarrow> if t \<noteq> 0 then removeAll t (pending_timers p) else pending_timers p
         | None \<Rightarrow> pending_timers p)\<rparr>"

subsection \<open>The operations of the planner\<close>

text \<open>
  What can happen to a planner after its constructor: the methods that change its fields,
  the firing of the save timeout, and the rendering methods. A rendering method reads the
  state and the content and writes markup into the page; it assigns no field of the
  planner. \<open>markup\<close> is what the method writes, as far as the functions above keep it.
\<close>

datatype operation =
    LoadState
  | SetState jsval
  | ToggleReading string
  | WeekToggleClick string
  | ImportProgress "jsval \<Rightarrow> error + string" bool json_text
  | TimerFires nat host_reply
  | RenderMonthSelector
  | RenderMonthDetails
  | RenderChronologicalPlan
  | RenderNT90Plan
  | RenderDiscipleship
  | UpdateProgress
  | UpdateUI

fun perform :: "operation \<Rightarrow> planner \<Rightarrow> planner" where
  "perform LoadState p = loadState p"
| "perform (SetState newState) p = setState newState p"
| "perform (ToggleReading readingId) p = toggleReading readingId p"
| "perform (WeekToggleClick weekId) p = week_toggle_click weekId p"
| "perform (ImportProgress generateChecksum confirmed file_text) p =
     importProgress generateChecksum confirmed file_text p"
| "perform (TimerFires t reply) p = timer_fires t reply p"
| "perform RenderMonthSelector p = p"
| "perform RenderMonthDetails p = p"
| "perform RenderChronologicalPlan p = p"
| "perform RenderNT90Plan p = p"
| "perform RenderDiscipleship p = p"
| "perform UpdateProgress p = p"
| "perform UpdateUI p = p"

fun markup :: "operation \<Rightarrow> planner \<Rightarrow> string list" where
  "markup RenderMonthSelector p = renderMonthSelector p"
| "markup RenderMonthDetails p = renderMonthDetails p"
| "markup RenderChronologicalPlan p = renderChronologicalPlanContent p"
| "markup RenderNT90Plan p = renderNT90Plan p"
| "markup RenderDiscipleship p = renderDiscipleship p"
| "markup UpdateUI p = updateUI p"
| "markup _ p = []"

definition run :: "operation list \<Rightarrow> planner \<Rightarrow> planner" where
  "run ops p = foldl (\<lambda>q op. perform op q) p ops"

text \<open>
  A call on the planner is one of these operations or \<^verbatim>\<open>destroy\<close>. The six content fields
  after a call are given as the source has them, each a structure or \<^verbatim>\<open>null\<close> (\<open>None\<close>).
\<close>

datatype planner_call = Operation operation | Destroy

type_synonym content_fields =
  "month list option \<times> holy_day list option \<times> ministry_event list option
     \<times> (string \<times> month_plan) list option \<times> nt_section list option
     \<times> discipleship_week list option"

definition live_content :: "planner \<Rightarrow> content_fields" where
  "live_content p =
     (Some (ethiopianMonths p), Some (holyDays p), Some (ministryEvents p),
      Some (chronologicalPlan p), Some (ntIntensive p), Some (discipleshipWeeks p))"

definition content_after :: "planner_call \<Rightarrow> planner \<Rightarrow> content_fields" where
  "content_after call p =
     (case call of
        Operation op \<Rightarrow> live_content (perform op p)
      | Destroy \<Rightarrow>
          (Some (left_ethiopianMonths (destroy p)), Some (left_holyDays (destroy p)),
           Some (left_ministryEvents (destroy p)), left_chronologicalPlan (destroy p),
           left_ntIntensive (destroy p), left_discipleshipWeeks (destroy p)))"

section \<open>FormAutoSave\<close>

text \<open>
  The entries of a \<^verbatim>\<open>FormData\<close>: a name with a string or a file. A file has no own
  enumerable property, so that \<^verbatim>\<open>JSON.stringify\<close> writes it as the empty object.
\<close>

datatype entry_value = TextValue string | FileValue string

definition entry_jsval :: "entry_value \<Rightarrow> jsval" where
  "entry_jsval v = (case v of TextValue s \<Rightarrow> JStr s | FileValue name \<Rightarrow> JObj [])"

text \<open>The entries that \<^verbatim>\<open>saveDraft\<close> copies: all but those named \<open>website\<close> or \<open>password\<close>.\<close>

definition kept :: "string \<times> entry_value \<Rightarrow> bool" where
  "kept e = (fst e \<noteq> ''website'' \<and> fst e \<noteq> ''password'')"

text \<open>The object \<^verbatim>\<open>data\<close> that \<^verbatim>\<open>saveDraft\<close> fills from the entries of the form.\<close>

definition draft_data :: "(string \<times> entry_value) list \<Rightarrow> ordinary_object" where
  "draft_data formData =
     foldl (\<lambda>data (key, value).
              if key \<noteq> ''website'' \<and> key \<noteq> ''password''
              then obj_assign key (entry_jsval value) data
              else data)
           empty_object formData"

text \<open>
  \<^verbatim>\<open>saveDraft\<close> on a \<^verbatim>\<open>localStorage\<close> that has room for the draft, or has not and throws.
\<close>

datatype storage_error = QuotaExceededError

definition saveDraft ::
  "bool \<Rightarrow> string \<Rightarrow> (string \<times> entry_value) list \<Rightarrow> (string \<Rightarrow> json_text option)
     \<Rightarrow> storage_error + (string \<Rightarrow> json_text option)" where
  "saveDraft has_room storageKey formData localStorage =
     (let data = draft_data formData
      in if has_room
         then Inr (localStorage(storageKey := JSON_stringify (JObj (own data))))
         else Inl QuotaExceededError)"

section \<open>Properties\<close>

subsection \<open>Property lists\<close>

lemma map_of_insert_index:
  "k \<notin> set (map fst ps) \<Longrightarrow> map_of (insert_index i k v ps) = (map_of ps)(k \<mapsto> v)"
  by (induction ps) (auto split: option.splits simp: fun_upd_twist)

lemma map_of_obj_define: "map_of (obj_define k v ps) = (map_of ps)(k \<mapsto> v)"
proof (cases "k \<in> set (map fst ps)")
  case True
  then show ?thesis by (simp add: obj_define_def update_conv')
next
  case False
  then have "map_of ps k = None" by (simp add: map_of_eq_None_iff)
  then have "map_of (ps @ [(k, v)]) = (map_of ps)(k \<mapsto> v)"
    by (auto simp: map_add_def fun_eq_iff split: option.splits)
  with False show ?thesis
    by (simp add: obj_define_def map_of_insert_index split: option.splits)
qed

lemma set_insert_index: "set (insert_index i k v ps) = insert (k, v) (set ps)"
  by (induction ps) (auto split: option.splits if_splits)

lemma keys_obj_define: "set (map fst (obj_define k v ps)) = insert k (set (map fst ps))"
proof (cases "k \<in> set (map fst ps)")
  case True
  then have "map fst (obj_define k v ps) = map fst ps"
    by (simp add: obj_define_def update_keys)
  with True show ?thesis by auto
next
  case False
  then show ?thesis
    by (auto simp: obj_define_def set_insert_index split: option.splits)
qed

lemma distinct_insert_index:
  "k \<notin> set (map fst ps) \<Longrightarrow> distinct (map fst ps)
     \<Longrightarrow> distinct (map fst (insert_index i k v ps))"
proof (induction ps)
  case Nil
  then show ?case by simp
next
  case (Cons e ps)
  obtain k' v' where e: "e = (k', v')" by (cases e)
  have "k' \<notin> fst ` set (insert_index i k v ps)"
    using Cons.prems by (auto simp: e set_insert_index)
  then show ?case
    using Cons by (auto simp: e split: option.splits)
qed

lemma distinct_obj_define:
  "distinct (map fst ps) \<Longrightarrow> distinct (map fst (obj_define k v ps))"
  by (auto simp: obj_define_def distinct_insert_index distinct_update split: option.splits)

lemma map_of_copy_props:
  "map_of (copy_props src target) = map_of target ++ map_of (rev src)"
  unfolding copy_props_def
proof (induction src arbitrary: target)
  case Nil
  then show ?case by simp
next
  case (Cons e src)
  obtain k v where e: "e = (k, v)" by (cases e)
  show ?case
    by (simp add: e Cons.IH map_of_obj_define map_add_upd_left fun_eq_iff map_add_def split: option.splits)
qed

lemma distinct_copy_props:
  "distinct (map fst target) \<Longrightarrow> distinct (map fst (copy_props src target))"
  unfolding copy_props_def
  by (induction src arbitrary: target) (auto simp: distinct_obj_define)

subsection \<open>Rounding to double precision\<close>
















subsection \<open>The streak\<close>

lemma length_insert_by: "length (insert_by cmp x ys) = Suc (length ys)"
  by (induction ys) auto

lemma length_sort_by: "length (sort_by cmp xs) = length xs"
  unfolding sort_by_def by (induction xs) (auto simp: length_insert_by)

lemma calculateStreak_object:
  "calculateStreak localeCompare today (JObj ps) = Inr (min (truthy_count ps) 30)"
proof -
  let ?done = "filter (\<lambda>(_, completed). truthy completed) ps"
  let ?sorted = "sort_by (\<lambda>a b. localeCompare (fst b) (fst a)) ?done"
  have len: "length ?sorted = truthy_count ps"
    by (simp add: length_sort_by truthy_count_def)
  have "calculateStreak localeCompare today (JObj ps)
          = Inr (if length ?sorted > 0 then min (length ?sorted) 30 else 0)"
    by (simp add: calculateStreak_def Object_entries_def Let_def)
  also have "\<dots> = Inr (min (truthy_count ps) 30)"
    unfolding len by simp
  finally show ?thesis .
qed

text \<open>
  C9. For every completion map, \<^verbatim>\<open>calculateStreak\<close> returns the smaller of 30 and the number
  of entries that hold a truthy value. The result does not depend on the date, on the
  collation order or on the identifiers, only on that count; and a count that is a
  positive multiple of seven is what \<^verbatim>\<open>celebrateCompletion\<close> announces as a day streak.
\<close>

theorem calculateStreak_min_count:
  "calculateStreak localeCompare today (JObj ps) = Inr (min (truthy_count ps) 30)
   \<and> celebrateCompletion localeCompare today (JObj ps)
       = Inr (if 0 < min (truthy_count ps) 30 \<and> min (truthy_count ps) 30 mod 7 = 0
              then Some (party_popper @ '' '' @ string_of_nat (min (truthy_count ps) 30)
                           @ '' day streak! Keep it up!'')
              else None)"
  by (simp add: celebrateCompletion_def calculateStreak_object)

subsection \<open>Progress insights\<close>









text \<open>
  The completion map with all 156 units of the three plans marked as read is such a map:
  318 percent, and 107 readings less than none remaining.
\<close>

lemma ids_explicit:
  "reading_identifiers (new_EthiopianBiblePlanner host) =
     [''chrono-meskerem-1'', ''chrono-meskerem-2'', ''chrono-meskerem-3'',
      ''chrono-meskerem-4'', ''chrono-tikimt-5'', ''chrono-tikimt-6'', ''chrono-tikimt-7'',
      ''chrono-tikimt-8'', ''chrono-hidar-9'', ''chrono-hidar-10'', ''chrono-hidar-11'',
      ''chrono-hidar-12'', ''chrono-tahsas-13'', ''chrono-tahsas-14'',
      ''chrono-tahsas-15'', ''chrono-tahsas-16'', ''chrono-tir-17'', ''chrono-tir-18'',
      ''chrono-tir-19'', ''chrono-tir-20'', ''chrono-yekatit-21'', ''chrono-yekatit-22'',
      ''chrono-yekatit-23'', ''chrono-yekatit-24'', ''chrono-megabit-25'',
      ''chrono-megabit-26'', ''chrono-megabit-27'', ''chrono-megabit-28'',
      ''chrono-miazia-29'', ''chrono-miazia-30'', ''chrono-miazia-31'',
      ''chrono-miazia-32'', ''chrono-ginbot-33'', ''chrono-ginbot-34'',
      ''chrono-ginbot-35'', ''chrono-ginbot-36'', ''chrono-sene-37'', ''chrono-sene-38'',
      ''chrono-sene-39'', ''chrono-sene-40'', ''chrono-hamle-41'', ''chrono-hamle-42'',
      ''chrono-hamle-43'', ''chrono-hamle-44'', ''chrono-nehase-45'', ''chrono-nehase-46'',
      ''chrono-nehase-47'', ''chrono-nehase-48'', ''chrono-pagume-49'', ''nt90-0'',
      ''nt90-0-day-1'', ''nt90-0-day-2'', ''nt90-0-day-3'', ''nt90-0-day-4'',
      ''nt90-0-day-5'', ''nt90-0-day-6'', ''nt90-0-day-7'', ''nt90-0-day-8'',
      ''nt90-0-day-9'', ''nt90-1'', ''nt90-1-day-10'', ''nt90-1-day-11'',
      ''nt90-1-day-12'', ''nt90-1-day-13'', ''nt90-1-day-14'', ''nt90-1-day-15'',
      ''nt90-2'', ''nt90-2-day-16'', ''nt90-2-day-17'', ''nt90-2-day-18'',
      ''nt90-2-day-19'', ''nt90-2-day-20'', ''nt90-2-day-21'', ''nt90-2-day-22'',
      ''nt90-2-day-23'', ''nt90-3'', ''nt90-3-day-24'', ''nt90-3-day-25'',
      ''nt90-3-day-26'', ''nt90-3-day-27'', ''nt90-3-day-28'', ''nt90-3-day-29'',
      ''nt90-3-day-30'', ''nt90-4'', ''nt90-4-day-31'', ''nt90-4-day-32'',
      ''nt90-4-day-33'', ''nt90-4-day-34'', ''nt90-4-day-35'', ''nt90-4-day-36'',
      ''nt90-4-day-37'', ''nt90-4-day-38'', ''nt90-4-day-39'', ''nt90-4-day-40'',
      ''nt90-5'', ''nt90-5-day-46'', ''nt90-5-day-47'', ''nt90-5-day-48'',
      ''nt90-5-day-49'', ''nt90-5-day-50'', ''nt90-5-day-51'', ''nt90-5-day-52'',
      ''nt90-5-day-53'', ''nt90-5-day-54'', ''nt90-5-day-55'', ''nt90-5-day-56'',
      ''nt90-5-day-57'', ''nt90-5-day-58'', ''nt90-6'', ''nt90-6-day-61'',
      ''nt90-6-day-62'', ''nt90-6-day-63'', ''nt90-6-day-64'', ''nt90-6-day-65'',
      ''nt90-6-day-66'', ''nt90-6-day-67'', ''nt90-6-day-68'', ''nt90-6-day-69'',
      ''nt90-6-day-70'', ''nt90-6-day-71'', ''nt90-6-day-72'', ''nt90-6-day-73'',
      ''nt90-6-day-74'', ''nt90-6-day-75'', ''nt90-7'', ''nt90-7-day-76'',
      ''nt90-7-day-77'', ''nt90-7-day-78'', ''nt90-7-day-79'', ''nt90-7-day-80'',
      ''nt90-7-day-81'', ''nt90-7-day-82'', ''nt90-7-day-83'', ''nt90-7-day-84'',
      ''nt90-7-day-85'', ''nt90-7-day-86'', ''nt90-7-day-87'', ''nt90-7-day-88'',
      ''nt90-7-day-89'', ''nt90-7-day-90'', ''disc-1'', ''disc-2'', ''disc-3'', ''disc-4'',
      ''disc-5'', ''disc-6'', ''disc-7'', ''disc-8'', ''disc-9'', ''disc-10'', ''disc-11'',
      ''disc-12'', ''disc-13'', ''disc-14'', ''disc-15'', ''disc-16'']"
  by (simp add: reading_identifiers_def renderChronologicalPlanContent_def renderNT90Plan_def
      renderDiscipleship_def renderNTSection_def renderNTDay_def renderWeekCard_def
      renderDiscipleshipWeek_def Let_def digit_char_def upt_rec
      new_EthiopianBiblePlanner_def initializeAllData_def
      initializeMonthsAndEvents_def initializeChronologicalPlan_def initializeNT90Plan_def
      initializeDiscipleshipWeeks_def)


subsection \<open>Reading identifiers\<close>

text \<open>
  C5. The reading identifiers of the weeks of the chronological plan, of the sections and
  days of the 90-day plan and of the discipleship weeks are pairwise distinct: no two of
  the 156 units of the three plans share an identifier.
\<close>

theorem reading_identifiers_distinct:
  "distinct (reading_identifiers (new_EthiopianBiblePlanner host))"
  unfolding ids_explicit by simp

text \<open>
  C7. Both identifiers that the specification gives as examples are generated:
  \<open>chrono-meskerem-1\<close> is the identifier of week 1 of the month \<open>meskerem\<close> in the
  chronological plan, and \<open>nt90-3-day-24\<close> is the identifier of day 24, a day of the section
  at index 3 of the 90-day plan, whose days are \<open>24-30\<close>.
\<close>

theorem example_identifiers:
  "map (\<lambda>w. (week w, renderWeekCard w ''meskerem''))
       (weeklyBreakdown (the (map_of (chronologicalPlan (new_EthiopianBiblePlanner host))
                                ''meskerem''))) ! 0
     = (1, ''chrono-meskerem-1'')
   \<and> ''chrono-meskerem-1'' \<in> set (renderChronologicalPlanContent (new_EthiopianBiblePlanner host))
   \<and> days (ntIntensive (new_EthiopianBiblePlanner host) ! 3) = ''24-30''
   \<and> map (\<lambda>d. (day d, renderNTDay d (''nt90-'' @ string_of_nat 3)))
         (dailyBreakdown (ntIntensive (new_EthiopianBiblePlanner host) ! 3)) ! 0
       = (24, ''nt90-3-day-24'')
   \<and> ''nt90-3-day-24'' \<in> set (renderNTSection (ntIntensive (new_EthiopianBiblePlanner host) ! 3) 3)
   \<and> ''nt90-3-day-24'' \<in> set (renderNT90Plan (new_EthiopianBiblePlanner host))"
  by (simp add: renderChronologicalPlanContent_def renderNT90Plan_def
      renderNTSection_def renderNTDay_def renderWeekCard_def
      Let_def digit_char_def upt_rec new_EthiopianBiblePlanner_def initializeAllData_def
      initializeMonthsAndEvents_def initializeChronologicalPlan_def initializeNT90Plan_def
      initializeDiscipleshipWeeks_def)

subsection \<open>StorageManager: writing and reading back\<close>

text \<open>
  A value that JSON can represent is written out in full and read back unchanged. With
  the host's store, a \<^verbatim>\<open>set\<close> that succeeded is therefore followed by a \<^verbatim>\<open>get\<close> of the same
  value; in the memory backend the same holds for every key but \<open>__proto__\<close>.
\<close>

lemma json_round_trip:
  "json_representable v \<Longrightarrow> \<exists>j. to_json v = Some j \<and> of_json j = v"
proof (induction v)
  case (JNum n)
  then show ?case by (cases n) auto
next
  case (JArr xs)
  have "\<forall>x \<in> set xs. \<exists>j. to_json x = Some j \<and> of_json j = x"
    using JArr by (auto simp: list_all_iff)
  then have "map (of_json \<circ> (\<lambda>x. case to_json x of None \<Rightarrow> JsonNull | Some j \<Rightarrow> j)) xs = xs"
    by (intro map_idI) auto
  then show ?case by simp
next
  case (JObj ps)
  have ih: "\<forall>(k, v) \<in> set ps. \<exists>j. to_json v = Some j \<and> of_json j = v"
    using JObj by (fastforce simp: list_all_iff)
  have "map (\<lambda>(k, v). (k, of_json v))
          (concat (map (\<lambda>(k, v). case to_json v of None \<Rightarrow> [] | Some j \<Rightarrow> [(k, j)]) ps)) = ps"
    using ih by (induction ps) auto
  then show ?case by simp
qed auto

lemma parse_stringify:
  "json_representable v \<Longrightarrow> \<exists>t. JSON_stringify v = Some t \<and> JSON_parse t = Inr v"
  using json_round_trip[of v] by (auto simp: JSON_stringify_def JSON_parse_def)

lemma native_round_trip:
  assumes "useNativeStorage sm" and "json_representable v"
    and "storage_set reply k v sm = (sm', True)"
  shows "storage_get k d sm' = Value v"
proof -
  obtain t where t: "JSON_stringify v = Some t" "JSON_parse t = Inr v"
    using parse_stringify[OF assms(2)] by blast
  have "sm' = sm\<lparr>window_storage := (window_storage sm)(k := Some t)\<rparr>"
    using assms(1,3) t(1) by (cases reply) (auto simp: storage_set_def)
  then show ?thesis using assms(1) t(2) by (simp add: storage_get_def)
qed

lemma memory_round_trip:
  assumes "\<not> useNativeStorage sm" and "json_representable v" and "k \<noteq> ''__proto__''"
    and "storage_set reply k v sm = (sm', ok)"
  shows "ok \<and> storage_get k d sm' = Value v"
proof -
  have v: "v \<noteq> JUndefined" using assms(2) by auto
  have sm': "sm' = sm\<lparr>memoryStorage := obj_assign k v (memoryStorage sm)\<rparr>" and ok: ok
    using assms(1,4) by (auto simp: storage_set_def Let_def)
  have "obj_read (obj_assign k v (memoryStorage sm)) k = Value v"
    using assms(3) by (simp add: obj_assign_def obj_read_def map_of_obj_define)
  then show ?thesis using assms(1) v ok by (simp add: sm' storage_get_def)
qed

text \<open>
  C4 does not hold in the memory backend for the key \<open>__proto__\<close>. On a fresh manager
  without \<^verbatim>\<open>window.storage\<close>, \<^verbatim>\<open>set('__proto__', 5)\<close> returns \<^verbatim>\<open>true\<close>: the assignment
  \<^verbatim>\<open>this.memoryStorage['__proto__'] = 5\<close> reaches the setter of \<^verbatim>\<open>Object.prototype\<close>, which
  ignores a number, and stores nothing. The following \<^verbatim>\<open>get('__proto__', null)\<close> reads the
  prototype of the memory object, which is not \<^verbatim>\<open>undefined\<close>, and returns it instead of 5.
  With a \<^verbatim>\<open>window.storage\<close> that accepts the write, the same two calls return 5.
\<close>

theorem memory_backend_proto_key:
  "json_representable (JNum (Fin 5))
   \<and> storage_set Accepted ''__proto__'' (JNum (Fin 5)) (new_StorageManager None)
       = (new_StorageManager None, True)
   \<and> storage_get ''__proto__'' (Value JNull) (new_StorageManager None)
       = Builtin ''Object.prototype''
   \<and> storage_get ''__proto__'' (Value JNull)
         (fst (storage_set Accepted ''__proto__'' (JNum (Fin 5))
                 (new_StorageManager (Some (\<lambda>k. None)))))
       = Value (JNum (Fin 5))"
  by (simp add: storage_set_def storage_get_def new_StorageManager_def empty_object_def
      obj_assign_def obj_read_def reaches_proto_setter_def proto_setter_def is_object_def
      object_prototype_read_def JSON_stringify_def JSON_parse_def)

subsection \<open>Loading the state\<close>

lemma map_of_rev_distinct: "distinct (map fst xs) \<Longrightarrow> map_of (rev xs) = map_of xs"
proof (induction xs)
  case Nil
  then show ?case by simp
next
  case (Cons e xs)
  obtain k v where e: "e = (k, v)" by (cases e)
  have "map_of xs k = None" using Cons.prems by (simp add: e map_of_eq_None_iff)
  then show ?case using Cons
    by (auto simp: e map_of_append map_add_def fun_eq_iff split: option.splits)
qed

lemma map_of_copy_props_distinct:
  "distinct (map fst src) \<Longrightarrow> map_of (copy_props src target) = map_of target ++ map_of src"
  by (simp add: map_of_copy_props map_of_rev_distinct)

lemma copy_into_empty:
  "distinct (map fst ps) \<Longrightarrow> map_of (copy_props ps []) = map_of ps"
  by (simp add: map_of_copy_props_distinct)

lemma new_planner_fields:
  "state (new_EthiopianBiblePlanner host) = default_state"
  "storage (new_EthiopianBiblePlanner host) = new_StorageManager host"
  "saveDebounceTimer (new_EthiopianBiblePlanner host) = None"
  "pending_timers (new_EthiopianBiblePlanner host) = []"
  "timers_created (new_EthiopianBiblePlanner host) = 0"
  by (simp_all add: new_EthiopianBiblePlanner_def initializeAllData_def
      initializeMonthsAndEvents_def initializeChronologicalPlan_def initializeNT90Plan_def
      initializeDiscipleshipWeeks_def)

lemma distinct_default_state: "distinct (map fst default_state)"
  by (simp add: default_state_def)

lemma copy_default_state: "copy_props default_state [] = default_state"
  by (simp add: copy_props_def default_state_def obj_define_def array_index_def is_digit_def)

lemma map_of_of_json_fields:
  "map_of (map (\<lambda>(k, v). (k, of_json v)) js) k = map_option of_json (map_of js k)"
  by (induction js) auto

text \<open>
  C1. At startup \<^verbatim>\<open>loadState\<close> reads the text under the key \<open>bible-planner-state\<close> and
  merges the saved record into the defaults: a field of the saved record holds the saved
  value, every other field keeps the value the constructor gave it. Without a saved
  record (the key holds no text, or there is no \<^verbatim>\<open>window.storage\<close> and the memory backend
  is still empty) the state stays as the constructor made it: the eight default fields.
\<close>

theorem loadState_merges_saved_record:
  "(c state_key = Some (JsonText (JsonObj js)) \<and> distinct (map fst js) \<longrightarrow>
      (\<forall>k. map_of (state (loadState (new_EthiopianBiblePlanner (Some c)))) k
            = (case map_of js k of
                 Some j \<Rightarrow> Some (of_json j)
               | None \<Rightarrow> map_of (state (new_EthiopianBiblePlanner (Some c))) k)))
   \<and> (c state_key = None \<longrightarrow>
        state (loadState (new_EthiopianBiblePlanner (Some c)))
          = state (new_EthiopianBiblePlanner (Some c)))
   \<and> state (loadState (new_EthiopianBiblePlanner None)) = state (new_EthiopianBiblePlanner None)
   \<and> state (new_EthiopianBiblePlanner host)
       = [(''activeTab'', JStr ''calendar''),
          (''selectedMonth'', JStr ''meskerem''),
          (''selectedPlan'', JStr ''chronological''),
          (''expandedWeeks'', JObj []),
          (''completedReadings'', JObj []),
          (''showStats'', JBool False),
          (''darkMode'', JBool False),
          (''reminderTime'', JStr ''07:00'')]
   \<and> state_key = ''bible-planner-state''"
proof (intro conjI impI allI)
  fix k
  assume a: "c state_key = Some (JsonText (JsonObj js)) \<and> distinct (map fst js)"
  let ?saved = "map (\<lambda>(k, v). (k, of_json v)) js"
  have keys: "map fst ?saved = map fst js" by (induction js) auto
  have got: "storage_get state_key (Value JNull) (new_StorageManager (Some c))
               = Value (JObj ?saved)"
    using a by (simp add: storage_get_def new_StorageManager_def JSON_parse_def)
  have "state (loadState (new_EthiopianBiblePlanner (Some c)))
          = copy_props ?saved (copy_props default_state [])"
    by (simp add: loadState_def new_planner_fields got truthy_lookup_def lookup_entries_def)
  moreover have "distinct (map fst ?saved)" using a by (simp only: keys)
  ultimately have "map_of (state (loadState (new_EthiopianBiblePlanner (Some c))))
               = map_of default_state ++ map_of ?saved"
    by (simp only: map_of_copy_props_distinct copy_default_state)
  then show "map_of (state (loadState (new_EthiopianBiblePlanner (Some c)))) k
               = (case map_of js k of
                    Some j \<Rightarrow> Some (of_json j)
                  | None \<Rightarrow> map_of (state (new_EthiopianBiblePlanner (Some c))) k)"
    by (simp add: map_add_def map_of_of_json_fields new_planner_fields split: option.splits)
next
  assume "c state_key = None"
  then show "state (loadState (new_EthiopianBiblePlanner (Some c)))
               = state (new_EthiopianBiblePlanner (Some c))"
    by (simp add: loadState_def new_planner_fields storage_get_def new_StorageManager_def
        truthy_lookup_def)
next
  show "state (loadState (new_EthiopianBiblePlanner None)) = state (new_EthiopianBiblePlanner None)"
    by (simp add: loadState_def new_planner_fields storage_get_def new_StorageManager_def
        truthy_lookup_def empty_object_def obj_read_def object_prototype_read_def
        object_prototype_keys_def state_key_def)
next
  show "state (new_EthiopianBiblePlanner host)
       = [(''activeTab'', JStr ''calendar''),
          (''selectedMonth'', JStr ''meskerem''),
          (''selectedPlan'', JStr ''chronological''),
          (''expandedWeeks'', JObj []),
          (''completedReadings'', JObj []),
          (''showStats'', JBool False),
          (''darkMode'', JBool False),
          (''reminderTime'', JStr ''07:00'')]"
    by (simp add: new_planner_fields default_state_def)
next
  show "state_key = ''bible-planner-state''" by (simp add: state_key_def)
qed

text \<open>A saved record with two fields: both are taken over, the other fields keep their defaults.\<close>

theorem loadState_merges_saved_record_witness:
  "(\<lambda>k. if k = state_key
         then Some (JsonText (JsonObj [(''activeTab'', JsonStr ''reading''),
                                       (''darkMode'', JsonBool True)]))
         else None) state_key
     = Some (JsonText (JsonObj [(''activeTab'', JsonStr ''reading''),
                                (''darkMode'', JsonBool True)]))
   \<and> distinct (map fst [(''activeTab'', JsonStr ''reading''), (''darkMode'', JsonBool True)])
   \<and> map (map_of (state (loadState (new_EthiopianBiblePlanner
          (Some (\<lambda>k. if k = state_key
                       then Some (JsonText (JsonObj [(''activeTab'', JsonStr ''reading''),
                                                     (''darkMode'', JsonBool True)]))
                       else None))))))
         [''activeTab'', ''darkMode'', ''selectedMonth'', ''reminderTime'', ''other'']
       = [Some (JStr ''reading''), Some (JBool True), Some (JStr ''meskerem''),
          Some (JStr ''07:00''), None]"
  using loadState_merges_saved_record
    [of "\<lambda>k. if k = state_key
              then Some (JsonText (JsonObj [(''activeTab'', JsonStr ''reading''),
                                            (''darkMode'', JsonBool True)]))
              else None"
        "[(''activeTab'', JsonStr ''reading''), (''darkMode'', JsonBool True)]"
        "Some (\<lambda>k. if k = state_key
              then Some (JsonText (JsonObj [(''activeTab'', JsonStr ''reading''),
                                            (''darkMode'', JsonBool True)]))
              else None)"]
  by simp

subsection \<open>Changing the state\<close>

lemma state_setState:
  "state (setState newState p) = spread2 (JObj (state p)) newState"
  by (simp add: setState_def saveStateDebounced_def clearTimeout_def Let_def
      split: option.splits)

lemma storage_setState: "storage (setState newState p) = storage p"
  by (simp add: setState_def saveStateDebounced_def clearTimeout_def Let_def
      split: option.splits)

lemma timers_setState:
  "saveDebounceTimer (setState newState p) = Some (Suc (timers_created p))"
  "timers_created (setState newState p) = Suc (timers_created p)"
  "pending_timers (setState newState p)
     = (case saveDebounceTimer p of
          Some t \<Rightarrow> if t \<noteq> 0 then removeAll t (pending_timers p) else pending_timers p
        | None \<Rightarrow> pending_timers p) @ [Suc (timers_created p)]"
  by (simp_all add: setState_def saveStateDebounced_def clearTimeout_def Let_def
      split: option.splits)

lemma state_key_not_proto: "state_key \<noteq> ''__proto__''"
  by (simp add: state_key_def)

lemma timer_fires_state: "state (timer_fires t reply p) = state p"
  by (simp add: timer_fires_def save_callback_def split: prod.splits)

lemma timer_fires_native:
  assumes "t \<in> set (pending_timers p)" and "useNativeStorage (storage p)"
  shows "window_storage (storage (timer_fires t Accepted p))
           = (window_storage (storage p))(state_key := JSON_stringify (JObj (state p)))"
    and "reply \<noteq> Accepted \<Longrightarrow> storage (timer_fires t reply p) = storage p"
  using assms
  by (cases reply; simp add: timer_fires_def save_callback_def storage_set_def Let_def)+

lemma timer_fires_memory:
  assumes "t \<in> set (pending_timers p)" and "\<not> useNativeStorage (storage p)"
  shows "own (memoryStorage (storage (timer_fires t reply p)))
           = obj_define state_key (JObj (state p)) (own (memoryStorage (storage p)))"
    and "proto (memoryStorage (storage (timer_fires t reply p)))
           = proto (memoryStorage (storage p))"
    and "storage_get state_key d (storage (timer_fires t reply p)) = Value (JObj (state p))"
  using assms state_key_not_proto
  by (simp_all add: timer_fires_def save_callback_def storage_set_def Let_def obj_assign_def
      storage_get_def obj_read_def map_of_obj_define)

lemma timer_fires_not_pending:
  "t \<notin> set (pending_timers p) \<Longrightarrow> timer_fires t reply p = p"
  by (simp add: timer_fires_def)

lemma map_of_spread2:
  assumes "distinct (map fst ps)" and "distinct (map fst ns)"
  shows "map_of (spread2 (JObj ps) (JObj ns)) = map_of ps ++ map_of ns"
  using assms by (simp add: spread2_def map_of_copy_props_distinct)

text \<open>
  C2. After \<^verbatim>\<open>setState(newState)\<close> every field named in \<open>newState\<close> holds the new value and
  every other field the value it had. The call cancels the pending timeout of an earlier
  call and leaves one new timeout pending; when that fires, the whole state record is
  written under the key \<open>bible-planner-state\<close>: as JSON text to the host's store, as the
  record itself to the memory backend.
\<close>

theorem setState_merges_and_schedules:
  assumes "distinct (map fst (state p))" and "distinct (map fst ns)"
  shows "(\<forall>k. map_of (state (setState (JObj ns) p)) k
               = (case map_of ns k of Some v \<Rightarrow> Some v | None \<Rightarrow> map_of (state p) k))
    \<and> saveDebounceTimer (setState (JObj ns) p) = Some (Suc (timers_created p))
    \<and> pending_timers (setState (JObj ns) p)
        = (case saveDebounceTimer p of
             Some t \<Rightarrow> if t \<noteq> 0 then removeAll t (pending_timers p) else pending_timers p
           | None \<Rightarrow> pending_timers p) @ [Suc (timers_created p)]
    \<and> (useNativeStorage (storage p) \<longrightarrow>
          window_storage
            (storage (timer_fires (Suc (timers_created p)) Accepted (setState (JObj ns) p)))
            = (window_storage (storage p))
                (state_key := JSON_stringify (JObj (state (setState (JObj ns) p)))))
    \<and> (\<not> useNativeStorage (storage p) \<longrightarrow>
          storage_get state_key d
            (storage (timer_fires (Suc (timers_created p)) reply (setState (JObj ns) p)))
            = Value (JObj (state (setState (JObj ns) p))))
    \<and> state_key = ''bible-planner-state''"
proof -
  let ?q = "setState (JObj ns) p"
  let ?t = "Suc (timers_created p)"
  have pend: "?t \<in> set (pending_timers ?q)" by (simp add: timers_setState)
  have frame: "\<forall>k. map_of (state ?q) k
                 = (case map_of ns k of Some v \<Rightarrow> Some v | None \<Rightarrow> map_of (state p) k)"
    by (simp add: state_setState map_of_spread2[OF assms] map_add_def)
  have native: "window_storage (storage (timer_fires ?t Accepted ?q))
                  = (window_storage (storage p))(state_key := JSON_stringify (JObj (state ?q)))"
    if "useNativeStorage (storage p)"
    using timer_fires_native(1)[OF pend] that by (simp add: storage_setState)
  have memory: "storage_get state_key d (storage (timer_fires ?t reply ?q))
                  = Value (JObj (state ?q))"
    if "\<not> useNativeStorage (storage p)"
    using timer_fires_memory(3)[OF pend] that by (simp add: storage_setState)
  have key: "state_key = ''bible-planner-state''" by (simp add: state_key_def)
  show ?thesis
    using frame native memory key by (simp add: timers_setState)
qed

text \<open>A click on a tab of a fresh planner without \<^verbatim>\<open>window.storage\<close>.\<close>

theorem setState_merges_and_schedules_witness:
  "distinct (map fst (state (new_EthiopianBiblePlanner None)))
   \<and> distinct (map fst [(''activeTab'', JStr ''reading'')])
   \<and> map (map_of (state (setState (JObj [(''activeTab'', JStr ''reading'')])
                           (new_EthiopianBiblePlanner None))))
         [''activeTab'', ''selectedMonth'', ''darkMode'']
       = [Some (JStr ''reading''), Some (JStr ''meskerem''), Some (JBool False)]
   \<and> pending_timers (setState (JObj [(''activeTab'', JStr ''reading'')])
                        (new_EthiopianBiblePlanner None)) = [1]
   \<and> \<not> useNativeStorage (storage (new_EthiopianBiblePlanner None))
   \<and> storage_get state_key (Value JNull)
         (storage (timer_fires 1 Accepted
            (setState (JObj [(''activeTab'', JStr ''reading'')])
               (new_EthiopianBiblePlanner None))))
       = Value (JObj (state (setState (JObj [(''activeTab'', JStr ''reading'')])
                               (new_EthiopianBiblePlanner None))))"
proof -
  have h: "distinct (map fst (state (new_EthiopianBiblePlanner None)))"
    "distinct (map fst [(''activeTab'', JStr ''reading'')])"
    by (simp_all add: new_planner_fields default_state_def)
  show ?thesis
    using setState_merges_and_schedules[OF h, of "Value JNull" Accepted] h
    by (simp add: new_planner_fields default_state_def new_StorageManager_def)
qed

subsection \<open>What is persisted\<close>

lemma storage_loadState: "storage (loadState p) = storage p"
  by (simp add: loadState_def Let_def)

lemma storage_importProgress:
  "storage (importProgress generateChecksum confirmed file_text p) = storage p"
  by (simp add: importProgress_def storage_setState split: sum.splits)

lemma storage_perform:
  assumes "\<And>t r. op \<noteq> TimerFires t r"
  shows "storage (perform op p) = storage p"
proof (cases op)
  case (TimerFires t r)
  with assms show ?thesis by blast
qed (simp_all add: storage_loadState storage_setState storage_importProgress
       toggleReading_def week_toggle_click_def Let_def)

lemma state_after_tab_click:
  "state (setState (JObj [(''activeTab'', JStr ''reading'')]) (new_EthiopianBiblePlanner host))
     = [(''activeTab'', JStr ''reading''),
        (''selectedMonth'', JStr ''meskerem''),
        (''selectedPlan'', JStr ''chronological''),
        (''expandedWeeks'', JObj []),
        (''completedReadings'', JObj []),
        (''showStats'', JBool False),
        (''darkMode'', JBool False),
        (''reminderTime'', JStr ''07:00'')]"
  by (simp add: state_setState new_planner_fields spread2_def copy_props_def obj_define_def
      array_index_def is_digit_def default_state_def)

text \<open>
  C3, as stated, fails: the record written after a click on a tab of a fresh planner has
  eight fields. Besides the active tab, the selected month and plan, the expanded weeks
  and the completion map it holds \<open>showStats\<close>, \<open>darkMode\<close> and \<open>reminderTime\<close>.
\<close>

theorem persisted_record_counterexample:
  "window_storage
     (storage (timer_fires 1 Accepted
        (setState (JObj [(''activeTab'', JStr ''reading'')])
           (new_EthiopianBiblePlanner (Some (\<lambda>k. None))))))
     state_key
   = Some (JsonText (JsonObj
       [(''activeTab'', JsonStr ''reading''),
        (''selectedMonth'', JsonStr ''meskerem''),
        (''selectedPlan'', JsonStr ''chronological''),
        (''expandedWeeks'', JsonObj []),
        (''completedReadings'', JsonObj []),
        (''showStats'', JsonBool False),
        (''darkMode'', JsonBool False),
        (''reminderTime'', JsonStr ''07:00'')]))"
proof -
  let ?q = "setState (JObj [(''activeTab'', JStr ''reading'')])
              (new_EthiopianBiblePlanner (Some (\<lambda>k. None)))"
  have "1 \<in> set (pending_timers ?q)" by (simp add: timers_setState new_planner_fields)
  moreover have "useNativeStorage (storage ?q)"
    by (simp add: storage_setState new_planner_fields new_StorageManager_def)
  ultimately have "window_storage (storage (timer_fires 1 Accepted ?q))
      = (window_storage (storage ?q))(state_key := JSON_stringify (JObj (state ?q)))"
    by (rule timer_fires_native(1))
  then show ?thesis
    by (simp add: state_after_tab_click JSON_stringify_def)
qed

text \<open>
  C3, amended. The record written to persistent storage is the whole state record: when
  the timeout of \<^verbatim>\<open>saveStateDebounced\<close> fires, the state is written under the key
  \<open>bible-planner-state\<close> and nothing else changes in the store (a refused or failed write
  changes nothing at all); the memory backend receives the record as the own property of
  that key. For a fresh planner the record has the eight fields of the constructor. No
  other operation of the planner writes to the store.
\<close>

theorem persisted_record_is_whole_state:
  assumes "t \<in> set (pending_timers p)"
  shows "(useNativeStorage (storage p) \<longrightarrow>
            window_storage (storage (timer_fires t Accepted p))
              = (window_storage (storage p))(state_key := JSON_stringify (JObj (state p)))
            \<and> (reply \<noteq> Accepted \<longrightarrow> storage (timer_fires t reply p) = storage p))
       \<and> (\<not> useNativeStorage (storage p) \<longrightarrow>
            own (memoryStorage (storage (timer_fires t reply p)))
              = obj_define state_key (JObj (state p)) (own (memoryStorage (storage p)))
            \<and> proto (memoryStorage (storage (timer_fires t reply p)))
                = proto (memoryStorage (storage p)))
       \<and> (\<forall>op. (\<forall>t' r. op \<noteq> TimerFires t' r) \<longrightarrow> storage (perform op p) = storage p)
       \<and> (\<forall>t'. t' \<notin> set (pending_timers p) \<longrightarrow> timer_fires t' reply p = p)
       \<and> JSON_stringify (JObj (state (new_EthiopianBiblePlanner host)))
           = Some (JsonText (JsonObj
               [(''activeTab'', JsonStr ''calendar''),
                (''selectedMonth'', JsonStr ''meskerem''),
                (''selectedPlan'', JsonStr ''chronological''),
                (''expandedWeeks'', JsonObj []),
                (''completedReadings'', JsonObj []),
                (''showStats'', JsonBool False),
                (''darkMode'', JsonBool False),
                (''reminderTime'', JsonStr ''07:00'')]))
       \<and> state_key = ''bible-planner-state''"
proof -
  have key: "state_key = ''bible-planner-state''" by (simp add: state_key_def)
  have ops: "\<forall>op. (\<forall>t' r. op \<noteq> TimerFires t' r) \<longrightarrow> storage (perform op p) = storage p"
    using storage_perform by blast
  have init: "JSON_stringify (JObj (state (new_EthiopianBiblePlanner host)))
           = Some (JsonText (JsonObj
               [(''activeTab'', JsonStr ''calendar''),
                (''selectedMonth'', JsonStr ''meskerem''),
                (''selectedPlan'', JsonStr ''chronological''),
                (''expandedWeeks'', JsonObj []),
                (''completedReadings'', JsonObj []),
                (''showStats'', JsonBool False),
                (''darkMode'', JsonBool False),
                (''reminderTime'', JsonStr ''07:00'')]))"
    by (simp add: new_planner_fields default_state_def JSON_stringify_def)
  show ?thesis
    using timer_fires_native(1)[OF assms] timer_fires_native(2)[OF assms, of reply]
      timer_fires_memory(1)[OF assms, of reply] timer_fires_memory(2)[OF assms, of reply]
      ops timer_fires_not_pending[of _ p reply] init key
    by blast
qed

text \<open>The first write of a planner without \<^verbatim>\<open>window.storage\<close>, after a click on a tab.\<close>

theorem persisted_record_is_whole_state_witness:
  "1 \<in> set (pending_timers (setState (JObj [(''activeTab'', JStr ''reading'')])
                               (new_EthiopianBiblePlanner None)))
   \<and> \<not> useNativeStorage (storage (setState (JObj [(''activeTab'', JStr ''reading'')])
                                       (new_EthiopianBiblePlanner None)))
   \<and> own (memoryStorage (storage (timer_fires 1 Accepted
            (setState (JObj [(''activeTab'', JStr ''reading'')])
               (new_EthiopianBiblePlanner None)))))
       = [(state_key,
           JObj [(''activeTab'', JStr ''reading''),
                 (''selectedMonth'', JStr ''meskerem''),
                 (''selectedPlan'', JStr ''chronological''),
                 (''expandedWeeks'', JObj []),
                 (''completedReadings'', JObj []),
                 (''showStats'', JBool False),
                 (''darkMode'', JBool False),
                 (''reminderTime'', JStr ''07:00'')])]"
proof -
  let ?q = "setState (JObj [(''activeTab'', JStr ''reading'')]) (new_EthiopianBiblePlanner None)"
  have h: "1 \<in> set (pending_timers ?q)" by (simp add: timers_setState new_planner_fields)
  have m: "\<not> useNativeStorage (storage ?q)"
    by (simp add: storage_setState new_planner_fields new_StorageManager_def)
  have "own (memoryStorage (storage (timer_fires 1 Accepted ?q)))
          = obj_define state_key (JObj (state ?q)) (own (memoryStorage (storage ?q)))"
    using persisted_record_is_whole_state[OF h, of Accepted None] m by blast
  then show ?thesis
    using h m
    by (simp add: state_after_tab_click storage_setState new_planner_fields
        new_StorageManager_def empty_object_def obj_define_def array_index_def is_digit_def
        state_key_def)
qed

subsection \<open>The content data\<close>

lemma content_setState: "content (setState newState p) = content p"
  by (simp add: content_def setState_def saveStateDebounced_def clearTimeout_def Let_def
      split: option.splits)

lemma content_loadState: "content (loadState p) = content p"
  by (simp add: content_def loadState_def Let_def)

lemma content_timer_fires: "content (timer_fires t reply p) = content p"
  by (simp add: content_def timer_fires_def save_callback_def split: prod.splits)

lemma content_importProgress:
  "content (importProgress generateChecksum confirmed file_text p) = content p"
  by (simp add: importProgress_def content_setState split: sum.splits)

lemma content_perform: "content (perform op p) = content p"
  by (cases op)
     (simp_all add: content_setState content_loadState content_timer_fires
        content_importProgress toggleReading_def week_toggle_click_def Let_def)

lemma content_run: "content (run ops p) = content p"
  unfolding run_def by (induction ops arbitrary: p) (simp_all add: content_perform)

lemma live_content_perform: "live_content (perform op p) = live_content p"
  using content_perform[of op p] by (simp add: live_content_def content_def)

lemma destroy_drops_plans:
  "left_ethiopianMonths (destroy p) = ethiopianMonths p"
  "left_holyDays (destroy p) = holyDays p"
  "left_ministryEvents (destroy p) = ministryEvents p"
  "left_chronologicalPlan (destroy p) = None"
  "left_ntIntensive (destroy p) = None"
  "left_discipleshipWeeks (destroy p) = None"
  by (simp_all add: destroy_def)

text \<open>
  C6, as stated, fails: \<^verbatim>\<open>destroy\<close> is an operation of the planner, and after it the
  chronological plan, the 90-day plan and the discipleship weeks are \<^verbatim>\<open>null\<close>, so that the
  content fields of a fresh planner are no longer what the constructor made them.
\<close>

theorem content_after_destroy_counterexample:
  "content_after Destroy (new_EthiopianBiblePlanner None)
     \<noteq> live_content (new_EthiopianBiblePlanner None)
   \<and> left_chronologicalPlan (destroy (new_EthiopianBiblePlanner None)) = None
   \<and> left_ntIntensive (destroy (new_EthiopianBiblePlanner None)) = None
   \<and> left_discipleshipWeeks (destroy (new_EthiopianBiblePlanner None)) = None"
  by (simp add: content_after_def live_content_def destroy_drops_plans)

text \<open>
  C6, amended. The six content structures are immutable while the planner runs: every
  operation other than \<^verbatim>\<open>destroy\<close>, that is loading the state, \<^verbatim>\<open>setState\<close> with any argument,
  toggling a reading or a week, importing any file, the firing of the save timeout and
  every rendering method, leaves all six as they are, and so does any sequence of these
  operations after the constructor. \<^verbatim>\<open>destroy\<close> leaves the month list, the holy days and the
  ministry events as they are and sets the three plans to \<^verbatim>\<open>null\<close>.
\<close>

theorem content_changes_only_on_destroy:
  "(call \<noteq> Destroy \<longrightarrow> content_after call p = live_content p)
   \<and> content_after Destroy p
       = (Some (ethiopianMonths p), Some (holyDays p), Some (ministryEvents p),
          None, None, None)
   \<and> content (run ops (new_EthiopianBiblePlanner host))
       = content (new_EthiopianBiblePlanner host)"
proof (intro conjI impI)
  assume "call \<noteq> Destroy"
  then obtain op where "call = Operation op" by (cases call) auto
  then show "content_after call p = live_content p"
    by (simp add: content_after_def live_content_perform)
next
  show "content_after Destroy p
       = (Some (ethiopianMonths p), Some (holyDays p), Some (ministryEvents p),
          None, None, None)"
    by (simp add: content_after_def destroy_drops_plans)
next
  show "content (run ops (new_EthiopianBiblePlanner host))
          = content (new_EthiopianBiblePlanner host)"
    by (rule content_run)
qed

text \<open>Toggling a reading and redrawing the page on a fresh planner.\<close>

theorem content_changes_only_on_destroy_witness:
  "Operation (ToggleReading ''chrono-meskerem-1'') \<noteq> Destroy
   \<and> content_after (Operation (ToggleReading ''chrono-meskerem-1''))
         (new_EthiopianBiblePlanner None)
       = live_content (new_EthiopianBiblePlanner None)
   \<and> Operation UpdateUI \<noteq> Destroy
   \<and> content_after (Operation UpdateUI) (new_EthiopianBiblePlanner None)
       = live_content (new_EthiopianBiblePlanner None)"
  using content_changes_only_on_destroy
          [of "Operation (ToggleReading ''chrono-meskerem-1'')" "new_EthiopianBiblePlanner None"]
        content_changes_only_on_destroy
          [of "Operation UpdateUI" "new_EthiopianBiblePlanner None"]
  by simp

subsection \<open>Drafts of forms\<close>

lemma draft_fold_filter:
  "foldl (\<lambda>data (key, value).
            if key \<noteq> ''website'' \<and> key \<noteq> ''password''
            then obj_assign key (entry_jsval value) data else data) d es
     = foldl (\<lambda>data (key, value). obj_assign key (entry_jsval value) data) d (filter kept es)"
  by (induction es arbitrary: d) (auto simp: kept_def)

lemma draft_data_kept:
  "draft_data es
     = foldl (\<lambda>data (key, value). obj_assign key (entry_jsval value) data)
         empty_object (filter kept es)"
  unfolding draft_data_def by (rule draft_fold_filter)

lemma kept_entries_equal:
  assumes "list_all2 (\<lambda>(k1, v1) (k2, v2).
             k1 = k2 \<and> (k1 \<noteq> ''password'' \<and> k1 \<noteq> ''website'' \<longrightarrow> v1 = v2)) es1 es2"
  shows "filter kept es1 = filter kept es2"
  using assms by (induction rule: list_all2_induct) (auto simp: kept_def)

lemma keys_obj_assign:
  "set (map fst (own (obj_assign k v m))) \<subseteq> insert k (set (map fst (own m)))"
  by (auto simp: obj_assign_def proto_setter_def keys_obj_define simp del: set_map)

lemma keys_fold_assign:
  "set (map fst (own (foldl (\<lambda>data (key, value). obj_assign key (entry_jsval value) data) d es)))
     \<subseteq> set (map fst (own d)) \<union> set (map fst es)"
proof (induction es arbitrary: d)
  case Nil
  then show ?case by simp
next
  case (Cons e es)
  obtain k v where e: "e = (k, v)" by (cases e)
  show ?case
    using Cons.IH[of "obj_assign k (entry_jsval v) d"] keys_obj_assign[of k "entry_jsval v" d]
    by (auto simp: e)
qed

lemma draft_keys: "set (map fst (own (draft_data es))) \<subseteq> set (map fst (filter kept es))"
  using keys_fold_assign[of empty_object "filter kept es"]
  by (simp add: draft_data_kept empty_object_def)

text \<open>
  C10. \<^verbatim>\<open>saveDraft\<close> writes to \<^verbatim>\<open>localStorage\<close> only the entries whose name is neither
  \<open>website\<close> nor \<open>password\<close>: two forms that have the same entry names in the same order and
  differ only in the values of entries so named write the same draft, and the draft has
  no property of either name.
\<close>

theorem saveDraft_ignores_password:
  assumes "list_all2 (\<lambda>(k1, v1) (k2, v2).
             k1 = k2 \<and> (k1 \<noteq> ''password'' \<and> k1 \<noteq> ''website'' \<longrightarrow> v1 = v2)) form1 form2"
  shows "saveDraft has_room storageKey form1 localStorage
           = saveDraft has_room storageKey form2 localStorage
         \<and> ''password'' \<notin> set (map fst (own (draft_data form1)))
         \<and> ''website'' \<notin> set (map fst (own (draft_data form1)))"
proof -
  have "draft_data form1 = draft_data form2"
    by (simp only: draft_data_kept kept_entries_equal[OF assms])
  then have same: "saveDraft has_room storageKey form1 localStorage
                     = saveDraft has_room storageKey form2 localStorage"
    by (simp add: saveDraft_def)
  have "\<forall>k \<in> set (map fst (filter kept form1)). k \<noteq> ''password'' \<and> k \<noteq> ''website''"
    by (auto simp: kept_def)
  then have "''password'' \<notin> set (map fst (own (draft_data form1)))"
    and "''website'' \<notin> set (map fst (own (draft_data form1)))"
    using draft_keys[of form1] by blast+
  with same show ?thesis by simp
qed

text \<open>Two contents of a form that differ in the password only.\<close>

theorem saveDraft_ignores_password_witness:
  "list_all2 (\<lambda>(k1, v1) (k2, v2).
       k1 = k2 \<and> (k1 \<noteq> ''password'' \<and> k1 \<noteq> ''website'' \<longrightarrow> v1 = v2))
     [(''email'', TextValue ''a@b.et''), (''password'', TextValue ''first secret'')]
     [(''email'', TextValue ''a@b.et''), (''password'', TextValue ''another one'')]
   \<and> saveDraft True ''form_draft_contact''
        [(''email'', TextValue ''a@b.et''), (''password'', TextValue ''first secret'')]
        (\<lambda>k. None)
       = saveDraft True ''form_draft_contact''
           [(''email'', TextValue ''a@b.et''), (''password'', TextValue ''another one'')]
           (\<lambda>k. None)
   \<and> own (draft_data
             [(''email'', TextValue ''a@b.et''), (''password'', TextValue ''first secret'')])
       = [(''email'', JStr ''a@b.et'')]"
proof -
  have h: "list_all2 (\<lambda>(k1, v1) (k2, v2).
       k1 = k2 \<and> (k1 \<noteq> ''password'' \<and> k1 \<noteq> ''website'' \<longrightarrow> v1 = v2))
     [(''email'', TextValue ''a@b.et''), (''password'', TextValue ''first secret'')]
     [(''email'', TextValue ''a@b.et''), (''password'', TextValue ''another one'')]"
    by simp
  have d: "own (draft_data
             [(''email'', TextValue ''a@b.et''), (''password'', TextValue ''first secret'')])
       = [(''email'', JStr ''a@b.et'')]"
    by (simp add: draft_data_def empty_object_def obj_assign_def obj_define_def
        array_index_def is_digit_def entry_jsval_def)
  show ?thesis
    using saveDraft_ignores_password[OF h, of True "''form_draft_contact''" "\<lambda>k. None"] h d
    by blast
qed

end
